theory Spec2Isabelle
  imports Complex_Main "HOL-Library.AList" "HOL-Library.Multiset"
begin

section \<open>Data model (src/orders/types.ts)\<close>

text \<open>
  The string-literal unions of \<^verbatim>\<open>types.ts\<close> are datatypes, the interfaces are records.
  An optional property (\<^verbatim>\<open>x?: T\<close>) is an \<open>option\<close>; \<open>None\<close> is \<^verbatim>\<open>undefined\<close>.
\<close>

datatype OrderType = market | limit | stop_loss | take_profit | entry
datatype OrderSide = buy | sell
datatype OrderStatus = pending | filled | cancelled | partially_filled
datatype OrderEvent = ev_created | ev_updated | ev_cancelled | ev_filled | ev_dragged

text \<open>
  A TypeScript \<^verbatim>\<open>number\<close> is a finite number, with exact arithmetic, or NaN. NaN is a value
  of type number that the code can be given wherever it takes a number; every arithmetic
  operation on NaN gives NaN and every comparison with NaN is false. The infinities, the
  sign of zero and the rounding of doubles are outside the model.
\<close>

datatype number = Num real | NaN

fun nadd :: "number \<Rightarrow> number \<Rightarrow> number" where
  "nadd (Num a) (Num b) = Num (a + b)"
| "nadd _ _ = NaN"

fun nsub :: "number \<Rightarrow> number \<Rightarrow> number" where
  "nsub (Num a) (Num b) = Num (a - b)"
| "nsub _ _ = NaN"

fun nmul :: "number \<Rightarrow> number \<Rightarrow> number" where
  "nmul (Num a) (Num b) = Num (a * b)"
| "nmul _ _ = NaN"

fun nneg :: "number \<Rightarrow> number" where
  "nneg (Num a) = Num (- a)"
| "nneg NaN = NaN"

text \<open>\<^verbatim>\<open>a <= b\<close>, \<^verbatim>\<open>a < b\<close> and \<^verbatim>\<open>a > b\<close>.\<close>

fun nle :: "number \<Rightarrow> number \<Rightarrow> bool" where
  "nle (Num a) (Num b) = (a \<le> b)"
| "nle _ _ = False"

fun nlt :: "number \<Rightarrow> number \<Rightarrow> bool" where
  "nlt (Num a) (Num b) = (a < b)"
| "nlt _ _ = False"

definition ngt :: "number \<Rightarrow> number \<Rightarrow> bool" where
  "ngt a b = nlt b a"

text \<open>
  \<^verbatim>\<open>a / b\<close>. The quotient of two finite numbers with a zero divisor is NaN for \<open>0 / 0\<close> and an
  infinity otherwise; the result is \<open>None\<close> where it is an infinity.
\<close>

fun ndiv :: "number \<Rightarrow> number \<Rightarrow> number option" where
  "ndiv (Num a) (Num b) =
     (if b = 0 then (if a = 0 then Some NaN else None) else Some (Num (a / b)))"
| "ndiv _ _ = Some NaN"

text \<open>\<^verbatim>\<open>customData?: Record<string, any>\<close>: caller metadata the engine never inspects.\<close>

typedecl customData

text \<open>\<^verbatim>\<open>interface TradingOrder extends BaseOrder\<close>.\<close>

record TradingOrder =
  o_id :: string
  o_type :: OrderType
  o_side :: OrderSide
  o_price :: number
  o_quantity :: number
  o_symbol :: string
  o_status :: OrderStatus
  o_timestamp :: number
  o_text :: "string option"
  o_customData :: "customData option"
  o_entryPrice :: "number option"
  o_stopLoss :: "number option"
  o_takeProfit :: "number option"
  o_pnl :: "number option"
  o_unrealizedPnl :: "number option"
  o_fees :: "number option"
  o_fillPrice :: "number option"
  o_fillQuantity :: "number option"

text \<open>
  \<^verbatim>\<open>interface PnLResult\<close>. The percentage is \<open>None\<close> where the double the source computes
  is an infinity.
\<close>

record PnLResult =
  unrealizedPnl :: number
  realizedPnl :: number
  percentage :: "number option"
  fees :: number
  netPnl :: number

section \<open>PnL calculation (src/orders/utils.ts)\<close>

text \<open>
  JavaScript's \<^verbatim>\<open>a || b\<close> on an optional number: \<^verbatim>\<open>a\<close> is falsy when it is
  \<^verbatim>\<open>undefined\<close>, \<open>0\<close> or NaN, and then the value is \<^verbatim>\<open>b\<close>.
\<close>

definition truthy :: "number option \<Rightarrow> bool" where
  "truthy a = (case a of None \<Rightarrow> False | Some NaN \<Rightarrow> False | Some (Num v) \<Rightarrow> v \<noteq> 0)"

definition or_else :: "number option \<Rightarrow> number \<Rightarrow> number" where
  "or_else a b = (case a of None \<Rightarrow> b | Some v \<Rightarrow> if truthy a then v else b)"

text \<open>
  \<^verbatim>\<open>
  export function calculatePnL(order: TradingOrder, currentPrice: number): PnLResult {
    const entryPrice = order.entryPrice || order.price
    const quantity = order.fillQuantity || order.quantity
    const fees = order.fees || 0
    let unrealizedPnl = 0
    let realizedPnl = 0
    if (order.status === 'filled' || order.status === 'partially_filled') {
      if (order.side === 'buy') { unrealizedPnl = (currentPrice - entryPrice) * quantity }
      else { unrealizedPnl = (entryPrice - currentPrice) * quantity }
    }
    if (order.status === 'filled' && order.fillPrice) {
      if (order.side === 'buy') { realizedPnl = (order.fillPrice - entryPrice) * quantity }
      else { realizedPnl = (entryPrice - order.fillPrice) * quantity }
    }
    const netPnl = unrealizedPnl + realizedPnl - fees
    const percentage = entryPrice > 0 ? (netPnl / (entryPrice * quantity)) * 100 : 0
    return { unrealizedPnl, realizedPnl, percentage, fees, netPnl }
  }
  \<close>
\<close>

definition calculatePnL :: "TradingOrder \<Rightarrow> number \<Rightarrow> PnLResult" where
  "calculatePnL order currentPrice =
     (let entryPrice = or_else (o_entryPrice order) (o_price order);
          quantity = or_else (o_fillQuantity order) (o_quantity order);
          fees0 = or_else (o_fees order) (Num 0);
          unrealized =
            (if o_status order = filled \<or> o_status order = partially_filled then
               (if o_side order = buy then nmul (nsub currentPrice entryPrice) quantity
                else nmul (nsub entryPrice currentPrice) quantity)
             else Num 0);
          realized =
            (case o_fillPrice order of
               None \<Rightarrow> Num 0
             | Some fillPrice \<Rightarrow>
                 if o_status order = filled \<and> truthy (Some fillPrice) then
                   (if o_side order = buy then nmul (nsub fillPrice entryPrice) quantity
                    else nmul (nsub entryPrice fillPrice) quantity)
                 else Num 0);
          net = nsub (nadd unrealized realized) fees0;
          pct =
            (if ngt entryPrice (Num 0) then
               (case ndiv net (nmul entryPrice quantity) of
                  None \<Rightarrow> None
                | Some q \<Rightarrow> Some (nmul q (Num 100)))
             else Some (Num 0))
      in \<lparr> unrealizedPnl = unrealized, realizedPnl = realized, percentage = pct,
           fees = fees0, netPnl = net \<rparr>)"

text \<open>
  The formula as the specification words it: the entry price is \<^verbatim>\<open>order.entryPrice\<close> "if
  present", the effective quantity is \<^verbatim>\<open>fillQuantity\<close> "if present".
\<close>

definition spec_entryPrice :: "TradingOrder \<Rightarrow> number" where
  "spec_entryPrice order = (case o_entryPrice order of Some e \<Rightarrow> e | None \<Rightarrow> o_price order)"

definition spec_effectiveQuantity :: "TradingOrder \<Rightarrow> number" where
  "spec_effectiveQuantity order =
     (case o_fillQuantity order of Some q \<Rightarrow> q | None \<Rightarrow> o_quantity order)"

definition spec_unrealizedPnl :: "TradingOrder \<Rightarrow> number \<Rightarrow> number" where
  "spec_unrealizedPnl order referencePrice =
     (if o_status order = filled \<or> o_status order = partially_filled then
        (if o_side order = buy
         then nmul (nsub referencePrice (spec_entryPrice order)) (spec_effectiveQuantity order)
         else nneg (nmul (nsub referencePrice (spec_entryPrice order))
                      (spec_effectiveQuantity order)))
      else Num 0)"

text \<open>An order for the worked examples: only the fields named vary.\<close>

definition sample_order :: "OrderSide \<Rightarrow> number \<Rightarrow> number option \<Rightarrow> number \<Rightarrow> OrderStatus \<Rightarrow> TradingOrder" where
  "sample_order sd p ep q st =
     \<lparr> o_id = ''o1'', o_type = entry, o_side = sd, o_price = p, o_quantity = q,
       o_symbol = ''BTCUSDT'', o_status = st, o_timestamp = Num 0, o_text = None,
       o_customData = None, o_entryPrice = ep, o_stopLoss = None, o_takeProfit = None,
       o_pnl = None, o_unrealizedPnl = None, o_fees = None, o_fillPrice = None,
       o_fillQuantity = None \<rparr>"

section \<open>Validation (src/orders/utils.ts)\<close>

text \<open>
  \<^verbatim>\<open>Partial<TradingOrder>\<close>: every property may be absent. \<^verbatim>\<open>validateOrder\<close> reads five of
  them; \<^verbatim>\<open>updateOrder\<close> takes such an object as the update.
\<close>

record PartialOrder =
  p_id :: "string option"
  p_type :: "OrderType option"
  p_side :: "OrderSide option"
  p_price :: "number option"
  p_quantity :: "number option"
  p_symbol :: "string option"
  p_status :: "OrderStatus option"
  p_timestamp :: "number option"
  p_text :: "string option"
  p_customData :: "customData option"
  p_entryPrice :: "number option"
  p_stopLoss :: "number option"
  p_takeProfit :: "number option"
  p_pnl :: "number option"
  p_unrealizedPnl :: "number option"
  p_fees :: "number option"
  p_fillPrice :: "number option"
  p_fillQuantity :: "number option"

text \<open>
  \<^verbatim>\<open>
  export function validateOrder(order: Partial<TradingOrder>): string[] {
    const errors: string[] = []
    if (!order.type) { errors.push('Order type is required') }
    if (!order.side) { errors.push('Order side is required') }
    if (typeof order.price !== 'number' || order.price <= 0) { errors.push('Valid price is required') }
    if (typeof order.quantity !== 'number' || order.quantity <= 0) { errors.push('Valid quantity is required') }
    if (!order.symbol) { errors.push('Symbol is required') }
    return errors
  }
  \<close>
  A string is falsy when it is \<^verbatim>\<open>undefined\<close> or empty. A price whose \<^verbatim>\<open>typeof\<close> is not
  \<^verbatim>\<open>'number'\<close> is \<open>None\<close>; the \<^verbatim>\<open>typeof\<close> of NaN is \<^verbatim>\<open>'number'\<close> and \<^verbatim>\<open>NaN <= 0\<close> is false.
\<close>

definition not_positive :: "number option \<Rightarrow> bool" where
  "not_positive x = (case x of None \<Rightarrow> True | Some v \<Rightarrow> nle v (Num 0))"

definition falsy_string :: "string option \<Rightarrow> bool" where
  "falsy_string x = (case x of None \<Rightarrow> True | Some v \<Rightarrow> v = [])"

definition validateOrder :: "PartialOrder \<Rightarrow> string list" where
  "validateOrder order =
     (if p_type order = None then [''Order type is required''] else []) @
     (if p_side order = None then [''Order side is required''] else []) @
     (if not_positive (p_price order) then [''Valid price is required''] else []) @
     (if not_positive (p_quantity order) then [''Valid quantity is required''] else []) @
     (if falsy_string (p_symbol order) then [''Symbol is required''] else [])"

section \<open>Ordering of orders (src/orders/utils.ts)\<close>

text \<open>
  \<^verbatim>\<open>
  export function getOrderPriority(order: TradingOrder): number {
    const priorities = { entry: 1, market: 2, limit: 3, stop_loss: 4, take_profit: 5 }
    return priorities[order.type] || 999
  }
  \<close>
\<close>

fun priorities :: "OrderType \<Rightarrow> number option" where
  "priorities entry = Some (Num 1)"
| "priorities market = Some (Num 2)"
| "priorities limit = Some (Num 3)"
| "priorities stop_loss = Some (Num 4)"
| "priorities take_profit = Some (Num 5)"

definition getOrderPriority :: "TradingOrder \<Rightarrow> number" where
  "getOrderPriority order = or_else (priorities (o_type order)) (Num 999)"

text \<open>
  \<^verbatim>\<open>Array.prototype.sort(compareFn)\<close> is a built-in of the language. It reads a result of
  the comparator that is NaN as 0. ECMAScript requires the sort to be stable; for a
  comparator that is a consistent ordering, every stable sort returns the same array, and
  for any other comparator the language leaves the order to the implementation. It is
  modelled as insertion sort: an element goes before the first element it does not
  compare greater than.
\<close>

definition sort_reads :: "number \<Rightarrow> real" where
  "sort_reads v = (case v of NaN \<Rightarrow> 0 | Num r \<Rightarrow> r)"

fun sort_insert :: "('a \<Rightarrow> 'a \<Rightarrow> number) \<Rightarrow> 'a \<Rightarrow> 'a list \<Rightarrow> 'a list" where
  "sort_insert compareFn x [] = [x]"
| "sort_insert compareFn x (y # ys) =
     (if sort_reads (compareFn x y) \<le> 0 then x # y # ys else y # sort_insert compareFn x ys)"

fun array_sort :: "('a \<Rightarrow> 'a \<Rightarrow> number) \<Rightarrow> 'a list \<Rightarrow> 'a list" where
  "array_sort compareFn [] = []"
| "array_sort compareFn (x # xs) = sort_insert compareFn x (array_sort compareFn xs)"

text \<open>
  \<^verbatim>\<open>
  export function sortOrders(orders: TradingOrder[]): TradingOrder[] {
    return orders.sort((a, b) => {
      const priorityDiff = getOrderPriority(a) - getOrderPriority(b)
      if (priorityDiff !== 0) return priorityDiff
      return a.price - b.price
    })
  }
  \<close>
\<close>

definition compareOrders :: "TradingOrder \<Rightarrow> TradingOrder \<Rightarrow> number" where
  "compareOrders a b =
     (let priorityDiff = nsub (getOrderPriority a) (getOrderPriority b)
      in if priorityDiff \<noteq> Num 0 then priorityDiff else nsub (o_price a) (o_price b))"

definition sortOrders :: "TradingOrder list \<Rightarrow> TradingOrder list" where
  "sortOrders orders = array_sort compareOrders orders"

text \<open>
  The order the specification words: by priority, and by ascending price within equal
  priority.
\<close>

definition spec_sorts_before :: "TradingOrder \<Rightarrow> TradingOrder \<Rightarrow> bool" where
  "spec_sorts_before a b =
     (nlt (getOrderPriority a) (getOrderPriority b) \<or>
      (getOrderPriority a = getOrderPriority b \<and> nle (o_price a) (o_price b)))"

text \<open>
  \<^verbatim>\<open>
  export function isOrderDraggable(order: TradingOrder): boolean {
    return order.status === 'pending'
  }
  \<close>
\<close>

definition isOrderDraggable :: "TradingOrder \<Rightarrow> bool" where
  "isOrderDraggable order = (o_status order = pending)"

section \<open>Themes (src/orders/themes.ts)\<close>

datatype LineStyle = solid | dashed | dotted

text \<open>\<^verbatim>\<open>interface OrderStyle\<close>. The numbers of a style are stored and never computed with.\<close>

record OrderStyle =
  lineColor :: string
  textColor :: string
  backgroundColor :: "string option"
  lineWidth :: "real option"
  lineStyle :: "LineStyle option"
  fontSize :: "real option"
  showCancelButton :: "bool option"
  draggable :: "bool option"

text \<open>
  One side of a theme is an object whose property names are \<^verbatim>\<open>entry\<close>, \<^verbatim>\<open>limit\<close>,
  \<^verbatim>\<open>stopLoss\<close>, \<^verbatim>\<open>takeProfit\<close> and \<^verbatim>\<open>market\<close>. The callers of the chart pass objects
  with fewer properties (\<^verbatim>\<open>setOrderTheme({ buy: { entry: {...} } })\<close> in the README), so a side
  is a map from property names to styles.
\<close>

type_synonym SideTheme = "string \<rightharpoonup> OrderStyle"

record OrderTheme =
  t_buy :: SideTheme
  t_sell :: SideTheme

text \<open>\<^verbatim>\<open>Partial<OrderTheme>\<close>: either side may be absent.\<close>

record PartialTheme =
  pt_buy :: "SideTheme option"
  pt_sell :: "SideTheme option"

text \<open>
  \<^verbatim>\<open>
  const defaultOrderStyle: Partial<OrderStyle> = {
    lineWidth: 1, fontSize: 12, showCancelButton: true, draggable: true,
    backgroundColor: 'rgba(0, 0, 0, 0.8)' }
  \<close>
  Each entry of \<^verbatim>\<open>darkTheme\<close> is \<^verbatim>\<open>{ ...defaultOrderStyle, lineColor, textColor, lineStyle,
  backgroundColor }\<close>.
\<close>

definition darkStyle :: "string \<Rightarrow> LineStyle \<Rightarrow> string \<Rightarrow> OrderStyle" where
  "darkStyle color ls bg =
     \<lparr> lineColor = color, textColor = color, backgroundColor = Some bg, lineWidth = Some 1,
       lineStyle = Some ls, fontSize = Some 12, showCancelButton = Some True,
       draggable = Some True \<rparr>"

definition darkTheme :: OrderTheme where
  "darkTheme =
     \<lparr> t_buy =
         [''entry'' \<mapsto> darkStyle ''#42a5f5'' solid ''rgba(66, 165, 245, 0.1)'',
          ''limit'' \<mapsto> darkStyle ''#ffb74d'' dashed ''rgba(255, 183, 77, 0.1)'',
          ''stopLoss'' \<mapsto> darkStyle ''#ef5350'' solid ''rgba(239, 83, 80, 0.1)'',
          ''takeProfit'' \<mapsto> darkStyle ''#66bb6a'' solid ''rgba(102, 187, 106, 0.1)'',
          ''market'' \<mapsto> darkStyle ''#ab47bc'' solid ''rgba(171, 71, 188, 0.1)''],
       t_sell =
         [''entry'' \<mapsto> darkStyle ''#ef5350'' solid ''rgba(239, 83, 80, 0.1)'',
          ''limit'' \<mapsto> darkStyle ''#ff8a65'' dashed ''rgba(255, 138, 101, 0.1)'',
          ''stopLoss'' \<mapsto> darkStyle ''#ef5350'' solid ''rgba(239, 83, 80, 0.1)'',
          ''takeProfit'' \<mapsto> darkStyle ''#66bb6a'' solid ''rgba(102, 187, 106, 0.1)'',
          ''market'' \<mapsto> darkStyle ''#ab47bc'' solid ''rgba(171, 71, 188, 0.1)''] \<rparr>"

definition defaultTheme :: OrderTheme where
  "defaultTheme = darkTheme"

text \<open>The value of the \<^verbatim>\<open>type\<close> property of an order: the string of the union.\<close>

fun type_string :: "OrderType \<Rightarrow> string" where
  "type_string market = ''market''"
| "type_string limit = ''limit''"
| "type_string stop_loss = ''stop_loss''"
| "type_string take_profit = ''take_profit''"
| "type_string entry = ''entry''"

text \<open>
  \<^verbatim>\<open>
  export function getOrderStyle(theme: OrderTheme, side: 'buy' | 'sell', type: string): OrderStyle {
    const sideTheme = theme[side]
    return sideTheme[type as keyof typeof sideTheme] || sideTheme.entry
  }
  \<close>
  The result is \<open>None\<close> (\<^verbatim>\<open>undefined\<close>) when the side has neither the property nor
  \<^verbatim>\<open>entry\<close>. The lookup is among the side's own properties: the manager calls it with the
  \<^verbatim>\<open>type\<close> of an order, one of the five strings of \<open>type_string\<close>, none of which names a
  property every object inherits (such as \<^verbatim>\<open>toString\<close>).
\<close>

definition side_theme :: "OrderTheme \<Rightarrow> OrderSide \<Rightarrow> SideTheme" where
  "side_theme theme sd = (case sd of buy \<Rightarrow> t_buy theme | sell \<Rightarrow> t_sell theme)"

definition getOrderStyle :: "OrderTheme \<Rightarrow> OrderSide \<Rightarrow> string \<Rightarrow> OrderStyle option" where
  "getOrderStyle theme sd tp =
     (let sideTheme = side_theme theme sd
      in case sideTheme tp of Some st \<Rightarrow> Some st | None \<Rightarrow> sideTheme ''entry'')"

text \<open>
  \<^verbatim>\<open>
  export function mergeThemes(baseTheme: OrderTheme, customTheme: Partial<OrderTheme>): OrderTheme {
    return {
      buy: { ...baseTheme.buy, ...customTheme.buy },
      sell: { ...baseTheme.sell, ...customTheme.sell }
    }
  }
  \<close>
  Spreading \<^verbatim>\<open>undefined\<close> adds no property; spreading an object copies its own properties,
  a later one replacing an earlier one of the same name.
\<close>

definition spread :: "SideTheme \<Rightarrow> SideTheme option \<Rightarrow> SideTheme" where
  "spread base custom = (case custom of None \<Rightarrow> base | Some c \<Rightarrow> base ++ c)"

definition mergeThemes :: "OrderTheme \<Rightarrow> PartialTheme \<Rightarrow> OrderTheme" where
  "mergeThemes baseTheme customTheme =
     \<lparr> t_buy = spread (t_buy baseTheme) (pt_buy customTheme),
       t_sell = spread (t_sell baseTheme) (pt_sell customTheme) \<rparr>"

section \<open>The order manager (class \<^verbatim>\<open>OrderManagerImpl\<close>)\<close>

text \<open>\<^verbatim>\<open>interface CreateOrderOptions\<close>. A caller can leave any property out, which is what
  \<^verbatim>\<open>validateOrder\<close> checks for, so every property is optional here.\<close>

record CreateOrderOptions =
  c_id :: "string option"
  c_type :: "OrderType option"
  c_side :: "OrderSide option"
  c_price :: "number option"
  c_quantity :: "number option"
  c_symbol :: "string option"
  c_status :: "OrderStatus option"
  c_text :: "string option"
  c_entryPrice :: "number option"
  c_stopLoss :: "number option"
  c_takeProfit :: "number option"
  c_customData :: "customData option"

text \<open>
  \<^verbatim>\<open>interface OrderCallback\<close>: an object with up to four handlers. A handler is foreign code;
  the model records which handlers the object has and its identity (\<open>cb_ref\<close>), and every
  call of a handler is logged in the manager's trace. Handlers are taken not to call
  back into the manager.
\<close>

record OrderCallback =
  cb_ref :: nat
  onOrderEvent :: bool
  onPriceChange :: bool
  onCancel :: bool
  onOrderClick :: bool

text \<open>\<^verbatim>\<open>interface OrderOverlayData extends TradingOrder\<close>: the payload of a primitive.\<close>

record OrderOverlayData =
  d_order :: TradingOrder
  d_currentPrice :: "number option"
  d_pnlResult :: "PnLResult option"
  d_theme :: "OrderStyle option"

text \<open>
  What the manager does to the outside, in the order it does it: calls of the chart
  (\<^verbatim>\<open>createOverlay\<close>, \<^verbatim>\<open>overrideOverlay\<close>, \<^verbatim>\<open>removeOverlay\<close>), calls of the handlers of the
  registered callbacks, calls of the callbacks registered for the end of a drag, and
  \<^verbatim>\<open>console.log\<close>.
\<close>

datatype Effect =
    Chart_createOverlay string "(number \<times> number) list" OrderOverlayData
  | Chart_overrideOverlay string "(number \<times> number) list" OrderOverlayData
  | Chart_removeOverlay string
  | Call_onOrderEvent nat string OrderEvent TradingOrder
  | Call_onPriceChange nat string number number
  | Call_onCancel nat string
  | Call_onOrderClick nat string
  | Call_onOrderDragEnd nat string number
  | Console_log_dragEnded string number

text \<open>The chart is an object of the host library; the manager holds it or \<^verbatim>\<open>null\<close>.\<close>

datatype Chart = Chart

text \<open>
  The fields of the class. A JavaScript \<^verbatim>\<open>Map\<close> keeps its entries in insertion order and
  \<^verbatim>\<open>set\<close> on a key it has replaces the value in place: an association list, with
  \<open>AList.update\<close> for \<^verbatim>\<open>set\<close>, \<open>map_of\<close> for \<^verbatim>\<open>get\<close> and \<open>AList.delete\<close> for \<^verbatim>\<open>delete\<close>.
  \<open>trace\<close> is the log of effects, oldest first.
\<close>

record OrderManager =
  orders :: "(string \<times> TradingOrder) list"
  overlayIds :: "(string \<times> string) list"
  callbacks :: "OrderCallback list"
  theme :: OrderTheme
  chart :: "Chart option"
  currentPrice :: number
  trace :: "Effect list"

text \<open>\<^verbatim>\<open>constructor(chart)\<close>: the field initialisers of the class.\<close>

definition new_OrderManager :: "Chart option \<Rightarrow> OrderManager" where
  "new_OrderManager c =
     \<lparr> orders = [], overlayIds = [], callbacks = [], theme = defaultTheme, chart = c,
       currentPrice = Num 0, trace = [] \<rparr>"

text \<open>
  What a call of \<^verbatim>\<open>addOrder\<close> takes from its environment: the identifier
  \<^verbatim>\<open>generateOrderId()\<close> would return (\<^verbatim>\<open>order_<Date.now()>_<random>\<close>), the value of
  \<^verbatim>\<open>Date.now()\<close> (a finite number), and what the chart's \<^verbatim>\<open>createOverlay\<close> returns (\<open>None\<close>: \<^verbatim>\<open>null\<close>).
\<close>

record Env =
  generatedId :: string
  now :: real
  createOverlayResult :: "string option"

datatype error = Error string

text \<open>\<^verbatim>\<open>errors.join(', ')\<close>.\<close>

fun join :: "string list \<Rightarrow> string" where
  "join [] = []"
| "join [e] = e"
| "join (e # es) = e @ '', '' @ join es"

text \<open>
  \<^verbatim>\<open>
  private notifyCallbacks(orderId, event, order): void {
    this.callbacks.forEach(callback => {
      if (callback.onOrderEvent) { callback.onOrderEvent(orderId, event, order) }
    })
  }
  \<close>
\<close>

definition notifyCallbacks :: "string \<Rightarrow> OrderEvent \<Rightarrow> TradingOrder \<Rightarrow> OrderManager \<Rightarrow> OrderManager" where
  "notifyCallbacks orderId event order m =
     m\<lparr> trace := trace m @
          map (\<lambda>callback. Call_onOrderEvent (cb_ref callback) orderId event order)
            (filter onOrderEvent (callbacks m)) \<rparr>"

definition overlayData :: "OrderManager \<Rightarrow> TradingOrder \<Rightarrow> OrderOverlayData" where
  "overlayData m order =
     \<lparr> d_order = order, d_currentPrice = Some (currentPrice m),
       d_pnlResult = Some (calculatePnL order (currentPrice m)),
       d_theme = getOrderStyle (theme m) (o_side order) (type_string (o_type order)) \<rparr>"

text \<open>
  \<^verbatim>\<open>
  private createOrderOverlay(order: TradingOrder): void {
    if (!this.chart) return
    const orderStyle = getOrderStyle(this.theme, order.side, order.type)
    const orderData = { ...order, currentPrice: this.currentPrice,
      pnlResult: calculatePnL(order, this.currentPrice), theme: orderStyle }
    const overlayId = this.chart.createOverlay({ name: 'trading_order',
      points: [{ value: order.price, timestamp: order.timestamp }], extendData: orderData })
    if (overlayId && typeof overlayId === 'string') { this.overlayIds.set(order.id, overlayId) }
  }
  \<close>
\<close>

definition createOrderOverlay :: "Env \<Rightarrow> TradingOrder \<Rightarrow> OrderManager \<Rightarrow> OrderManager" where
  "createOrderOverlay env order m =
     (case chart m of
        None \<Rightarrow> m
      | Some _ \<Rightarrow>
          (let m1 = m\<lparr> trace := trace m @
                     [Chart_createOverlay ''trading_order''
                        [(o_price order, o_timestamp order)] (overlayData m order)] \<rparr>
           in case createOverlayResult env of
                None \<Rightarrow> m1
              | Some overlayId \<Rightarrow>
                  if overlayId \<noteq> [] then
                    m1\<lparr> overlayIds := AList.update (o_id order) overlayId (overlayIds m1) \<rparr>
                  else m1))"

text \<open>
  \<^verbatim>\<open>
  private updateOrderOverlay(order: TradingOrder): void {
    if (!this.chart) return
    const overlayId = this.overlayIds.get(order.id)
    if (!overlayId) return
    ...
    this.chart.overrideOverlay({ id: overlayId,
      points: [{ value: order.price, timestamp: order.timestamp }], extendData: orderData })
  }
  private refreshAllOrders(): void {
    this.orders.forEach(order => { this.updateOrderOverlay(order) })
  }
  \<close>
\<close>

definition updateOrderOverlay :: "TradingOrder \<Rightarrow> OrderManager \<Rightarrow> OrderManager" where
  "updateOrderOverlay order m =
     (case chart m of
        None \<Rightarrow> m
      | Some _ \<Rightarrow>
          (case map_of (overlayIds m) (o_id order) of
             None \<Rightarrow> m
           | Some overlayId \<Rightarrow>
               if overlayId = [] then m
               else m\<lparr> trace := trace m @
                      [Chart_overrideOverlay overlayId
                         [(o_price order, o_timestamp order)] (overlayData m order)] \<rparr>))"

definition refreshAllOrders :: "OrderManager \<Rightarrow> OrderManager" where
  "refreshAllOrders m = fold (\<lambda>entry. updateOrderOverlay (snd entry)) (orders m) m"

text \<open>
  \<^verbatim>\<open>
  addOrder(orderOptions: CreateOrderOptions): string {
    const orderId = orderOptions.id || generateOrderId()
    const order: TradingOrder = { id: orderId, type: orderOptions.type, side: orderOptions.side,
      price: orderOptions.price, quantity: orderOptions.quantity, symbol: orderOptions.symbol,
      status: orderOptions.status || 'pending', timestamp: Date.now(), text: orderOptions.text,
      entryPrice: orderOptions.entryPrice, stopLoss: orderOptions.stopLoss,
      takeProfit: orderOptions.takeProfit, customData: orderOptions.customData }
    const errors = validateOrder(order)
    if (errors.length > 0) { throw new Error(`Invalid order: ${errors.join(', ')}`) }
    this.orders.set(orderId, order)
    this.createOrderOverlay(order)
    this.notifyCallbacks(orderId, 'created', order)
    return orderId
  }
  \<close>
  The object literal is \<open>draft\<close>. Once it has passed \<^verbatim>\<open>validateOrder\<close> it has the required
  properties of a \<open>TradingOrder\<close>, and \<open>complete\<close> reads it as one (lemma
  \<open>validateOrder_complete\<close>: \<open>complete\<close> is never \<open>None\<close> there). The result is the value
  returned (\<open>Inr\<close>) or the exception thrown (\<open>Inl\<close>), and the manager after the call.
\<close>

definition draft :: "Env \<Rightarrow> CreateOrderOptions \<Rightarrow> PartialOrder" where
  "draft env orderOptions =
     \<lparr> p_id = Some (case c_id orderOptions of
                     None \<Rightarrow> generatedId env
                   | Some i \<Rightarrow> if i = [] then generatedId env else i),
       p_type = c_type orderOptions,
       p_side = c_side orderOptions,
       p_price = c_price orderOptions,
       p_quantity = c_quantity orderOptions,
       p_symbol = c_symbol orderOptions,
       p_status = Some (case c_status orderOptions of None \<Rightarrow> pending | Some st \<Rightarrow> st),
       p_timestamp = Some (Num (now env)),
       p_text = c_text orderOptions,
       p_customData = c_customData orderOptions,
       p_entryPrice = c_entryPrice orderOptions,
       p_stopLoss = c_stopLoss orderOptions,
       p_takeProfit = c_takeProfit orderOptions,
       p_pnl = None, p_unrealizedPnl = None, p_fees = None, p_fillPrice = None,
       p_fillQuantity = None \<rparr>"

definition complete :: "PartialOrder \<Rightarrow> TradingOrder option" where
  "complete d =
     (case (p_id d, p_type d, p_side d, p_price d) of
        (Some i, Some tp, Some sd, Some p) \<Rightarrow>
          (case (p_quantity d, p_symbol d, p_status d, p_timestamp d) of
             (Some q, Some sy, Some st, Some ts) \<Rightarrow>
               Some \<lparr> o_id = i, o_type = tp, o_side = sd, o_price = p, o_quantity = q,
                      o_symbol = sy, o_status = st, o_timestamp = ts, o_text = p_text d,
                      o_customData = p_customData d, o_entryPrice = p_entryPrice d,
                      o_stopLoss = p_stopLoss d, o_takeProfit = p_takeProfit d,
                      o_pnl = p_pnl d, o_unrealizedPnl = p_unrealizedPnl d,
                      o_fees = p_fees d, o_fillPrice = p_fillPrice d,
                      o_fillQuantity = p_fillQuantity d \<rparr>
           | _ \<Rightarrow> None)
      | _ \<Rightarrow> None)"

definition addOrder :: "Env \<Rightarrow> CreateOrderOptions \<Rightarrow> OrderManager \<Rightarrow> (error + string) \<times> OrderManager" where
  "addOrder env orderOptions m =
     (let d = draft env orderOptions;
          errors = validateOrder d
      in if errors \<noteq> [] then (Inl (Error (''Invalid order: '' @ join errors)), m)
         else case complete d of
                None \<Rightarrow> (Inl (Error (''Invalid order: '' @ join errors)), m)
              | Some order \<Rightarrow>
                  (let orderId = o_id order;
                       m1 = m\<lparr> orders := AList.update orderId order (orders m) \<rparr>;
                       m2 = createOrderOverlay env order m1;
                       m3 = notifyCallbacks orderId ev_created order m2
                   in (Inr orderId, m3)))"

text \<open>
  \<^verbatim>\<open>
  updateOrder(orderId: string, updates: Partial<TradingOrder>): void {
    const order = this.orders.get(orderId)
    if (!order) { throw new Error(`Order ${orderId} not found`) }
    const updatedOrder = { ...order, ...updates }
    this.orders.set(orderId, updatedOrder)
    this.updateOrderOverlay(updatedOrder)
    this.notifyCallbacks(orderId, 'updated', updatedOrder)
  }
  \<close>
  \<open>spread_order\<close> is \<^verbatim>\<open>{ ...order, ...updates }\<close>: a property the update has replaces the
  order's. \<open>None\<close> in the update is a property it does not have; an update with a property
  present and \<^verbatim>\<open>undefined\<close>, which would erase the order's, is not represented.
\<close>

definition or_keep :: "'a option \<Rightarrow> 'a \<Rightarrow> 'a" where
  "or_keep u old = (case u of None \<Rightarrow> old | Some v \<Rightarrow> v)"

definition or_keep_opt :: "'a option \<Rightarrow> 'a option \<Rightarrow> 'a option" where
  "or_keep_opt u old = (case u of None \<Rightarrow> old | Some v \<Rightarrow> Some v)"

definition spread_order :: "TradingOrder \<Rightarrow> PartialOrder \<Rightarrow> TradingOrder" where
  "spread_order order updates =
     \<lparr> o_id = or_keep (p_id updates) (o_id order),
       o_type = or_keep (p_type updates) (o_type order),
       o_side = or_keep (p_side updates) (o_side order),
       o_price = or_keep (p_price updates) (o_price order),
       o_quantity = or_keep (p_quantity updates) (o_quantity order),
       o_symbol = or_keep (p_symbol updates) (o_symbol order),
       o_status = or_keep (p_status updates) (o_status order),
       o_timestamp = or_keep (p_timestamp updates) (o_timestamp order),
       o_text = or_keep_opt (p_text updates) (o_text order),
       o_customData = or_keep_opt (p_customData updates) (o_customData order),
       o_entryPrice = or_keep_opt (p_entryPrice updates) (o_entryPrice order),
       o_stopLoss = or_keep_opt (p_stopLoss updates) (o_stopLoss order),
       o_takeProfit = or_keep_opt (p_takeProfit updates) (o_takeProfit order),
       o_pnl = or_keep_opt (p_pnl updates) (o_pnl order),
       o_unrealizedPnl = or_keep_opt (p_unrealizedPnl updates) (o_unrealizedPnl order),
       o_fees = or_keep_opt (p_fees updates) (o_fees order),
       o_fillPrice = or_keep_opt (p_fillPrice updates) (o_fillPrice order),
       o_fillQuantity = or_keep_opt (p_fillQuantity updates) (o_fillQuantity order) \<rparr>"

definition updateOrder :: "string \<Rightarrow> PartialOrder \<Rightarrow> OrderManager \<Rightarrow> (error + unit) \<times> OrderManager" where
  "updateOrder orderId updates m =
     (case map_of (orders m) orderId of
        None \<Rightarrow> (Inl (Error (''Order '' @ orderId @ '' not found'')), m)
      | Some order \<Rightarrow>
          (let updatedOrder = spread_order order updates;
               m1 = m\<lparr> orders := AList.update orderId updatedOrder (orders m) \<rparr>;
               m2 = updateOrderOverlay updatedOrder m1
           in (Inr (), notifyCallbacks orderId ev_updated updatedOrder m2)))"

text \<open>
  \<^verbatim>\<open>
  removeOrder(orderId: string): void {
    const order = this.orders.get(orderId)
    if (!order) { return }
    const overlayId = this.overlayIds.get(orderId)
    if (overlayId && this.chart) { this.chart.removeOverlay(overlayId) }
    this.orders.delete(orderId)
    this.overlayIds.delete(orderId)
    this.notifyCallbacks(orderId, 'cancelled', order)
  }
  \<close>
\<close>

definition removeOverlayOf :: "string \<Rightarrow> OrderManager \<Rightarrow> OrderManager" where
  "removeOverlayOf orderId m =
     (case map_of (overlayIds m) orderId of
        None \<Rightarrow> m
      | Some overlayId \<Rightarrow>
          if overlayId \<noteq> [] \<and> chart m \<noteq> None
          then m\<lparr> trace := trace m @ [Chart_removeOverlay overlayId] \<rparr>
          else m)"

definition deleteFromMaps :: "string \<Rightarrow> OrderManager \<Rightarrow> OrderManager" where
  "deleteFromMaps orderId m =
     m\<lparr> orders := AList.delete orderId (orders m),
        overlayIds := AList.delete orderId (overlayIds m) \<rparr>"

definition removeOrder :: "string \<Rightarrow> OrderManager \<Rightarrow> OrderManager" where
  "removeOrder orderId m =
     (case map_of (orders m) orderId of
        None \<Rightarrow> m
      | Some order \<Rightarrow>
          notifyCallbacks orderId ev_cancelled order
            (deleteFromMaps orderId (removeOverlayOf orderId m)))"

text \<open>
  \<^verbatim>\<open>
  getOrder(orderId: string): TradingOrder | undefined { return this.orders.get(orderId) }
  getAllOrders(): TradingOrder[] { return sortOrders(Array.from(this.orders.values())) }
  \<close>
\<close>

definition getOrder :: "OrderManager \<Rightarrow> string \<Rightarrow> TradingOrder option" where
  "getOrder m orderId = map_of (orders m) orderId"

definition getAllOrders :: "OrderManager \<Rightarrow> TradingOrder list" where
  "getAllOrders m = sortOrders (map snd (orders m))"

text \<open>
  \<^verbatim>\<open>
  setTheme(theme: Partial<OrderTheme>): void {
    this.theme = { ...this.theme, ...theme }
    this.refreshAllOrders()
  }
  \<close>
\<close>

definition setTheme :: "PartialTheme \<Rightarrow> OrderManager \<Rightarrow> OrderManager" where
  "setTheme th m =
     refreshAllOrders
       (m\<lparr> theme :=
            \<lparr> t_buy = (case pt_buy th of None \<Rightarrow> t_buy (theme m) | Some b \<Rightarrow> b),
              t_sell = (case pt_sell th of None \<Rightarrow> t_sell (theme m) | Some s \<Rightarrow> s) \<rparr> \<rparr>)"

text \<open>
  \<^verbatim>\<open>
  addCallback(callback: OrderCallback): void { this.callbacks.push(callback) }
  \<close>
\<close>

definition addCallback :: "OrderCallback \<Rightarrow> OrderManager \<Rightarrow> OrderManager" where
  "addCallback callback m = m\<lparr> callbacks := callbacks m @ [callback] \<rparr>"

text \<open>
  \<^verbatim>\<open>
  removeCallback(callback: OrderCallback): void {
    const index = this.callbacks.indexOf(callback)
    if (index > -1) { this.callbacks.splice(index, 1) }
  }
  setChart(chart: Nullable<Chart>): void { this.chart = chart }
  updateCurrentPrice(price: number): void {
    this.currentPrice = price
    this.refreshAllOrders()
  }
  clearAllOrders(): void {
    const orderIds = Array.from(this.orders.keys())
    orderIds.forEach(orderId => this.removeOrder(orderId))
  }
  \<close>
\<close>

definition removeCallback :: "OrderCallback \<Rightarrow> OrderManager \<Rightarrow> OrderManager" where
  "removeCallback callback m = m\<lparr> callbacks := remove1 callback (callbacks m) \<rparr>"

definition setChart :: "Chart option \<Rightarrow> OrderManager \<Rightarrow> OrderManager" where
  "setChart c m = m\<lparr> chart := c \<rparr>"

definition updateCurrentPrice :: "number \<Rightarrow> OrderManager \<Rightarrow> OrderManager" where
  "updateCurrentPrice price m = refreshAllOrders (m\<lparr> currentPrice := price \<rparr>)"

definition clearAllOrders :: "OrderManager \<Rightarrow> OrderManager" where
  "clearAllOrders m = fold removeOrder (map fst (orders m)) m"

text \<open>
  The handlers the overlay template calls.
  \<^verbatim>\<open>
  handlePriceChange = (orderId, newPrice, oldPrice): void => {
    const order = this.orders.get(orderId)
    if (!order) return
    order.price = newPrice
    this.orders.set(orderId, order)
    this.callbacks.forEach(callback => {
      if (callback.onPriceChange) { callback.onPriceChange(orderId, newPrice, oldPrice) } })
    this.notifyCallbacks(orderId, 'dragged', order)
  }
  handleOrderDragEnd = (orderId: string, finalPrice: number): void => {
    // This can be used for additional logic when dragging ends
    console.log(`Order ${orderId} drag ended at price ${finalPrice}`)
  }
  handleOrderClick = (orderId: string): void => {
    this.callbacks.forEach(callback => {
      if (callback.onOrderClick) { callback.onOrderClick(orderId) } })
  }
  handleOrderCancel = (orderId: string): void => {
    const order = this.orders.get(orderId)
    if (!order) return
    this.callbacks.forEach(callback => {
      if (callback.onCancel) { callback.onCancel(orderId) } })
    this.updateOrder(orderId, { status: 'cancelled' })
  }
  \<close>
\<close>

definition handlePriceChange :: "string \<Rightarrow> number \<Rightarrow> number \<Rightarrow> OrderManager \<Rightarrow> OrderManager" where
  "handlePriceChange orderId newPrice oldPrice m =
     (case map_of (orders m) orderId of
        None \<Rightarrow> m
      | Some order0 \<Rightarrow>
          (let order = order0\<lparr> o_price := newPrice \<rparr>;
               m1 = m\<lparr> orders := AList.update orderId order (orders m) \<rparr>;
               m2 = m1\<lparr> trace := trace m1 @
                      map (\<lambda>callback. Call_onPriceChange (cb_ref callback) orderId newPrice oldPrice)
                        (filter onPriceChange (callbacks m1)) \<rparr>
           in notifyCallbacks orderId ev_dragged order m2))"

definition handleOrderDragEnd :: "string \<Rightarrow> number \<Rightarrow> OrderManager \<Rightarrow> OrderManager" where
  "handleOrderDragEnd orderId finalPrice m =
     m\<lparr> trace := trace m @ [Console_log_dragEnded orderId finalPrice] \<rparr>"

definition handleOrderClick :: "string \<Rightarrow> OrderManager \<Rightarrow> OrderManager" where
  "handleOrderClick orderId m =
     m\<lparr> trace := trace m @
          map (\<lambda>callback. Call_onOrderClick (cb_ref callback) orderId)
            (filter onOrderClick (callbacks m)) \<rparr>"

definition no_updates :: PartialOrder where
  "no_updates =
     \<lparr> p_id = None, p_type = None, p_side = None, p_price = None, p_quantity = None,
       p_symbol = None, p_status = None, p_timestamp = None, p_text = None,
       p_customData = None, p_entryPrice = None, p_stopLoss = None, p_takeProfit = None,
       p_pnl = None, p_unrealizedPnl = None, p_fees = None, p_fillPrice = None,
       p_fillQuantity = None \<rparr>"

definition handleOrderCancel :: "string \<Rightarrow> OrderManager \<Rightarrow> OrderManager" where
  "handleOrderCancel orderId m =
     (case map_of (orders m) orderId of
        None \<Rightarrow> m
      | Some order \<Rightarrow>
          (let m1 = m\<lparr> trace := trace m @
                      map (\<lambda>callback. Call_onCancel (cb_ref callback) orderId)
                        (filter onCancel (callbacks m)) \<rparr>
           in snd (updateOrder orderId (no_updates\<lparr> p_status := Some cancelled \<rparr>) m1)))"

section \<open>The overlay template (src/orders/overlays/order-overlay.ts)\<close>

text \<open>
  The host passes the overlay to each handler; the handlers read its \<^verbatim>\<open>extendData\<close>
  (\<open>None\<close>: no payload) and the module's variable \<^verbatim>\<open>orderManager\<close>.
  \<^verbatim>\<open>
  let orderManager: any = null
  export function setOrderManager(manager: any) { orderManager = manager }

  onPressedMoveStart: ({ overlay }) => {
    const orderData = overlay.extendData as OrderOverlayData
    if (!orderData || !isOrderDraggable(orderData)) { return false }
    return true
  },
  onPressedMoveEnd: ({ overlay }) => {
    const orderData = overlay.extendData as OrderOverlayData
    if (!orderData) return false
    if (orderManager && orderManager.handleOrderDragEnd) {
      orderManager.handleOrderDragEnd(orderData.id, orderData.price)
    }
    return true
  },
  \<close>
  The variable has type \<^verbatim>\<open>any\<close> and is set by code that is not in this module: it is
  \<open>None\<close> (\<^verbatim>\<open>null\<close>) or an object, given by its state and by its property
  \<^verbatim>\<open>handleOrderDragEnd\<close>, if it has one. For an \<^verbatim>\<open>OrderManagerImpl\<close> as the class makes it,
  the state is an \<open>OrderManager\<close> and the property is \<open>handleOrderDragEnd\<close> above.
\<close>

record Overlay =
  points :: "(number \<times> number) list"
  extendData :: "OrderOverlayData option"

definition onPressedMoveStart :: "Overlay \<Rightarrow> bool" where
  "onPressedMoveStart overlay =
     (case extendData overlay of
        None \<Rightarrow> False
      | Some orderData \<Rightarrow> if \<not> isOrderDraggable (d_order orderData) then False else True)"

definition onPressedMoveEnd ::
  "Overlay \<Rightarrow> ('m \<times> (string \<Rightarrow> number \<Rightarrow> 'm \<Rightarrow> 'm) option) option \<Rightarrow> bool \<times> 'm option" where
  "onPressedMoveEnd overlay orderManager =
     (case extendData overlay of
        None \<Rightarrow> (False, map_option fst orderManager)
      | Some orderData \<Rightarrow>
          (True,
           case orderManager of
             None \<Rightarrow> None
           | Some (m, None) \<Rightarrow> Some m
           | Some (m, Some handler) \<Rightarrow>
               Some (handler (o_id (d_order orderData)) (o_price (d_order orderData)) m)))"

section \<open>The drag-end entry point of the chart (interface \<^verbatim>\<open>ChartPro\<close>, src/types.ts)\<close>




section \<open>Persistence (src/orders/persistence.ts)\<close>

text \<open>
  \<^verbatim>\<open>
  static exportOrders(orders: TradingOrder[]): string {
    return JSON.stringify(orders, null, 2)
  }
  static importOrders(jsonString: string): TradingOrder[] {
    try {
      const orders = JSON.parse(jsonString)
      if (Array.isArray(orders)) { return orders }
    } catch (error) {
      console.error('Failed to import orders from JSON:', error)
    }
    return []
  }
  \<close>
  The two functions are \<^verbatim>\<open>JSON.stringify\<close> and \<^verbatim>\<open>JSON.parse\<close>, built-ins of the language
  (ECMAScript, the JSON object), with a test on what was parsed. The built-ins are modelled
  on JSON values and texts: \<open>JSON_stringify\<close> writes the text of a value with an
  indentation of two spaces, \<open>JSON_parse\<close> reads a text and is \<open>None\<close> where
  \<^verbatim>\<open>JSON.parse\<close> throws.
\<close>

subsection \<open>JSON values\<close>

text \<open>
  What \<^verbatim>\<open>JSON.parse\<close> returns: \<^verbatim>\<open>null\<close>, a boolean, a number, a string, an array, or an
  object, which is the list of its properties in the order in which the language
  enumerates them. A string is a list of characters with codes 0 to 255; code units above
  255 are outside the model, and so are property keys that are array indices, which the
  language enumerates before the others.
\<close>

datatype json =
    JNull
  | JBool bool
  | JNumber real
  | JString string
  | JArray "json list"
  | JObject "(string \<times> json) list"

subsection \<open>The text of a number\<close>

text \<open>
  \<^verbatim>\<open>JSON.stringify\<close> writes a finite number as \<^verbatim>\<open>Number.prototype.toString\<close> does: the
  digits of the shortest decimal that reads back as the number, in plain notation when the
  magnitude is below \<open>10^21\<close> and, unless the number is 0, at least \<open>10^-6\<close>. The numbers
  of the model are exact, so the text of a number is its decimal expansion: an optional
  minus sign, the digits of the integer part and, when there is a fractional part, a point
  and the fractional digits (at most 25). The exponent notation of the other magnitudes
  and the rounding of doubles are outside the model.
\<close>

definition digit_char :: "nat \<Rightarrow> char" where
  "digit_char d = ''0123456789'' ! d"

fun digits :: "nat \<Rightarrow> string" where
  "digits n = (if n < 10 then [digit_char n] else digits (n div 10) @ [digit_char (n mod 10)])"

declare digits.simps [simp del]

fun frac_digits :: "nat \<Rightarrow> real \<Rightarrow> string" where
  "frac_digits 0 x = []"
| "frac_digits (Suc k) x =
     (if x = 0 then []
      else digit_char (nat \<lfloor>x * 10\<rfloor>) # frac_digits k (x * 10 - of_int \<lfloor>x * 10\<rfloor>))"

definition unsigned_text :: "real \<Rightarrow> string" where
  "unsigned_text a =
     digits (nat \<lfloor>a\<rfloor>) @ (if frac a = 0 then [] else CHR ''.'' # frac_digits 25 (frac a))"

definition number_text :: "real \<Rightarrow> string" where
  "number_text r = (if r < 0 then CHR ''-'' # unsigned_text (- r) else unsigned_text r)"

text \<open>
  Reading a number token, by the grammar of JSON: an optional minus sign; an integer
  part, which is \<open>0\<close> or digits without a leading zero; an optional fraction, a point and
  at least one digit; an optional exponent, \<open>e\<close> or \<open>E\<close>, an optional sign and at least one
  digit; and nothing more. The result is \<open>None\<close> for any other token.
\<close>

definition is_digit :: "char \<Rightarrow> bool" where
  "is_digit c = (c \<in> set ''0123456789'')"

definition digit_value :: "char \<Rightarrow> nat" where
  "digit_value c = of_char c - 48"

definition digits_value :: "string \<Rightarrow> nat" where
  "digits_value ds = foldl (\<lambda>acc c. acc * 10 + digit_value c) 0 ds"

definition frac_value :: "string \<Rightarrow> real" where
  "frac_value ds = foldr (\<lambda>c acc. (real (digit_value c) + acc) / 10) ds 0"

definition read_int_part :: "string \<Rightarrow> (nat \<times> string) option" where
  "read_int_part s =
     (let ip = takeWhile is_digit s
      in if ip = [] \<or> (1 < length ip \<and> hd ip = CHR ''0'') then None
         else Some (digits_value ip, dropWhile is_digit s))"

definition read_frac_part :: "string \<Rightarrow> (real \<times> string) option" where
  "read_frac_part s =
     (case s of
        [] \<Rightarrow> Some (0, [])
      | c # t \<Rightarrow>
          if c = CHR ''.'' then
            (let fp = takeWhile is_digit t
             in if fp = [] then None else Some (frac_value fp, dropWhile is_digit t))
          else Some (0, s))"

definition read_exponent :: "string \<Rightarrow> int option" where
  "read_exponent s =
     (case s of
        [] \<Rightarrow> Some 0
      | c # t \<Rightarrow>
          if c = CHR ''e'' \<or> c = CHR ''E'' then
            (case t of
               [] \<Rightarrow> None
             | sg # ds \<Rightarrow>
                 if sg = CHR ''-'' then
                   (if ds \<noteq> [] \<and> list_all is_digit ds then Some (- int (digits_value ds)) else None)
                 else if sg = CHR ''+'' then
                   (if ds \<noteq> [] \<and> list_all is_digit ds then Some (int (digits_value ds)) else None)
                 else
                   (if list_all is_digit t then Some (int (digits_value t)) else None))
          else None)"

definition scale10 :: "real \<Rightarrow> int \<Rightarrow> real" where
  "scale10 m e = (if 0 \<le> e then m * 10 ^ nat e else m / 10 ^ nat (- e))"

definition read_unsigned :: "string \<Rightarrow> real option" where
  "read_unsigned s =
     (case read_int_part s of
        None \<Rightarrow> None
      | Some (i, t) \<Rightarrow>
          (case read_frac_part t of
             None \<Rightarrow> None
           | Some (x, u) \<Rightarrow>
               (case read_exponent u of
                  None \<Rightarrow> None
                | Some e \<Rightarrow> Some (scale10 (real i + x) e))))"

definition read_number :: "string \<Rightarrow> real option" where
  "read_number tok =
     (case tok of
        [] \<Rightarrow> None
      | c # t \<Rightarrow>
          if c = CHR ''-'' then map_option uminus (read_unsigned t) else read_unsigned tok)"

subsection \<open>\<^verbatim>\<open>JSON.stringify(value, null, 2)\<close>\<close>

text \<open>
  A string is written between double quotes; the double quote and the backslash are
  escaped with a backslash, the control characters (codes below 32) are written as
  \<^verbatim>\<open>\b\<close>, \<^verbatim>\<open>\f\<close>, \<^verbatim>\<open>\n\<close>, \<^verbatim>\<open>\r\<close>, \<^verbatim>\<open>\t\<close> or, the others, as \<^verbatim>\<open>\u00\<close> and two lower-case
  hexadecimal digits; every other character is written as it is.
\<close>

definition hex_digit :: "nat \<Rightarrow> char" where
  "hex_digit d = ''0123456789abcdef'' ! d"

definition escape :: "char \<Rightarrow> string" where
  "escape c =
     (if c = CHR 0x22 then [CHR 0x5C, CHR 0x22]
      else if c = CHR 0x5C then [CHR 0x5C, CHR 0x5C]
      else if c = CHR 0x08 then [CHR 0x5C, CHR ''b'']
      else if c = CHR 0x0C then [CHR 0x5C, CHR ''f'']
      else if c = CHR 0x0A then [CHR 0x5C, CHR ''n'']
      else if c = CHR 0x0D then [CHR 0x5C, CHR ''r'']
      else if c = CHR 0x09 then [CHR 0x5C, CHR ''t'']
      else if (of_char c :: nat) < 32 then
        [CHR 0x5C, CHR ''u'', CHR ''0'', CHR ''0'',
         hex_digit (of_char c div 16), hex_digit (of_char c mod 16)]
      else [c])"

definition quote :: "string \<Rightarrow> string" where
  "quote s = CHR 0x22 # concat (map escape s) @ [CHR 0x22]"

text \<open>
  With the indentation 2, an array or object that is not empty is written with each
  element or property on a line of its own, indented by two spaces more than the line that
  opens it, the elements separated by a comma at the end of the line, a property as its
  quoted key, a colon, a space and its value. An empty array is \<^verbatim>\<open>[]\<close>, an empty object
  \<^verbatim>\<open>{}\<close>. \<open>ser n v\<close> is the text of \<open>v\<close> at nesting depth \<open>n\<close>.
\<close>

definition indent :: "nat \<Rightarrow> string" where
  "indent n = replicate (2 * n) CHR '' ''"

definition newline :: string where
  "newline = [CHR 0x0A]"

fun ser :: "nat \<Rightarrow> json \<Rightarrow> string"
  and ser_elems :: "nat \<Rightarrow> json list \<Rightarrow> string"
  and ser_members :: "nat \<Rightarrow> (string \<times> json) list \<Rightarrow> string"
where
  "ser n JNull = ''null''"
| "ser n (JBool b) = (if b then ''true'' else ''false'')"
| "ser n (JNumber r) = number_text r"
| "ser n (JString s) = quote s"
| "ser n (JArray []) = ''[]''"
| "ser n (JArray (v # vs)) =
     ''['' @ newline @ indent (Suc n) @ ser_elems (Suc n) (v # vs) @ newline @ indent n @ '']''"
| "ser n (JObject []) = ''{}''"
| "ser n (JObject (m # ms)) =
     ''{'' @ newline @ indent (Suc n) @ ser_members (Suc n) (m # ms) @ newline @ indent n @ ''}''"
| "ser_elems n [] = []"
| "ser_elems n [v] = ser n v"
| "ser_elems n (v # w # vs) =
     ser n v @ '','' @ newline @ indent n @ ser_elems n (w # vs)"
| "ser_members n [] = []"
| "ser_members n [(k, v)] = quote k @ '': '' @ ser n v"
| "ser_members n ((k, v) # m # ms) =
     quote k @ '': '' @ ser n v @ '','' @ newline @ indent n @ ser_members n (m # ms)"
definition JSON_stringify :: "json \<Rightarrow> string" where
  "JSON_stringify v = ser 0 v"

subsection \<open>\<^verbatim>\<open>JSON.parse(text)\<close>\<close>

text \<open>
  White space is the space, the line feed, the carriage return and the tab. A number token
  is the longest run of digits, signs, points and exponent letters.
\<close>

definition is_ws :: "char \<Rightarrow> bool" where
  "is_ws c = (c = CHR '' '' \<or> c = CHR 0x0A \<or> c = CHR 0x0D \<or> c = CHR 0x09)"

definition skip_ws :: "string \<Rightarrow> string" where
  "skip_ws s = dropWhile is_ws s"

definition is_number_char :: "char \<Rightarrow> bool" where
  "is_number_char c = (is_digit c \<or> c \<in> set ''+-.eE'')"

text \<open>
  A string is read up to its closing quote. After a backslash come one of the characters
  \<^verbatim>\<open>" \ / b f n r t\<close> or \<^verbatim>\<open>u\<close> and four hexadecimal digits (here: of a code below 256); a
  control character that is not escaped is an error.
\<close>

definition hex_value :: "char \<Rightarrow> nat option" where
  "hex_value c =
     (if is_digit c then Some (of_char c - 48)
      else if c \<in> set ''abcdef'' then Some (of_char c - 87)
      else if c \<in> set ''ABCDEF'' then Some (of_char c - 55)
      else None)"

definition unescape :: "char \<Rightarrow> char option" where
  "unescape e =
     (if e = CHR 0x22 then Some (CHR 0x22)
      else if e = CHR 0x5C then Some (CHR 0x5C)
      else if e = CHR ''/'' then Some (CHR ''/'')
      else if e = CHR ''b'' then Some (CHR 0x08)
      else if e = CHR ''f'' then Some (CHR 0x0C)
      else if e = CHR ''n'' then Some (CHR 0x0A)
      else if e = CHR ''r'' then Some (CHR 0x0D)
      else if e = CHR ''t'' then Some (CHR 0x09)
      else None)"

definition hex4 :: "char \<Rightarrow> char \<Rightarrow> char \<Rightarrow> char \<Rightarrow> char option" where
  "hex4 a b c d =
     (case (hex_value a, hex_value b, hex_value c, hex_value d) of
        (Some x, Some y, Some z, Some w) \<Rightarrow>
          (let u = ((x * 16 + y) * 16 + z) * 16 + w
           in if u < 256 then Some (char_of u) else None)
      | _ \<Rightarrow> None)"

definition cons_char :: "char \<Rightarrow> (string \<times> string) option \<Rightarrow> (string \<times> string) option" where
  "cons_char c r = (case r of None \<Rightarrow> None | Some (s, rest) \<Rightarrow> Some (c # s, rest))"

fun parse_string :: "string \<Rightarrow> (string \<times> string) option" where
  "parse_string [] = None"
| "parse_string (c # cs) =
     (if c = CHR 0x22 then Some ([], cs)
      else if c = CHR 0x5C then
        (case cs of
           [] \<Rightarrow> None
         | e # cs' \<Rightarrow>
             if e = CHR ''u'' then
               (case cs' of
                  a # b # c' # d # cs'' \<Rightarrow>
                    (case hex4 a b c' d of
                       None \<Rightarrow> None
                     | Some ch \<Rightarrow> cons_char ch (parse_string cs''))
                | _ \<Rightarrow> None)
             else
               (case unescape e of
                  None \<Rightarrow> None
                | Some ch \<Rightarrow> cons_char ch (parse_string cs')))
      else if (of_char c :: nat) < 32 then None
      else cons_char c (parse_string cs))"

text \<open>
  The properties read for an object, in the order of the text: a key that occurs again
  takes the later value and keeps its place.
\<close>

fun object_of :: "(string \<times> json) list \<Rightarrow> (string \<times> json) list \<Rightarrow> (string \<times> json) list" where
  "object_of acc [] = acc"
| "object_of acc ((k, v) # ms) = object_of (AList.update k v acc) ms"

text \<open>
  The value at the head of a text, with the text that follows it. \<open>parse_elems\<close> reads
  the elements of an array that is not empty, up to and including its closing bracket,
  \<open>parse_members\<close> the properties of an object up to and including its closing brace. The
  first argument bounds the depth of the nested calls. \<open>JSON_parse\<close> gives it one more than
  the length of the text (every nested call reads a character of its own, and
  \<open>JSON_round_trip\<close> shows that the bound is enough for every text that \<open>JSON_stringify\<close>
  writes); the text has to end after the value and white space.
\<close>

fun parse_value :: "nat \<Rightarrow> string \<Rightarrow> (json \<times> string) option"
  and parse_elems :: "nat \<Rightarrow> string \<Rightarrow> (json list \<times> string) option"
  and parse_members ::
    "nat \<Rightarrow> string \<Rightarrow> ((string \<times> json) list \<times> string) option"
where
  "parse_value 0 s = None"
| "parse_value (Suc f) s =
     (case skip_ws s of
        [] \<Rightarrow> None
      | c # cs \<Rightarrow>
          if c = CHR ''['' then
            (case skip_ws cs of
               [] \<Rightarrow> None
             | d # r \<Rightarrow>
                 if d = CHR '']'' then Some (JArray [], r)
                 else (case parse_elems f cs of
                         None \<Rightarrow> None
                       | Some (vs, r') \<Rightarrow> Some (JArray vs, r')))
          else if c = CHR ''{'' then
            (case skip_ws cs of
               [] \<Rightarrow> None
             | d # r \<Rightarrow>
                 if d = CHR ''}'' then Some (JObject [], r)
                 else (case parse_members f cs of
                         None \<Rightarrow> None
                       | Some (ms, r') \<Rightarrow> Some (JObject (object_of [] ms), r')))
          else if c = CHR 0x22 then
            (case parse_string cs of
               None \<Rightarrow> None
             | Some (str, r) \<Rightarrow> Some (JString str, r))
          else if take 4 (c # cs) = ''null'' then Some (JNull, drop 4 (c # cs))
          else if take 4 (c # cs) = ''true'' then Some (JBool True, drop 4 (c # cs))
          else if take 5 (c # cs) = ''false'' then Some (JBool False, drop 5 (c # cs))
          else if c = CHR ''-'' \<or> is_digit c then
            (case read_number (takeWhile is_number_char (c # cs)) of
               None \<Rightarrow> None
             | Some x \<Rightarrow> Some (JNumber x, dropWhile is_number_char (c # cs)))
          else None)"
| "parse_elems 0 s = None"
| "parse_elems (Suc f) s =
     (case parse_value f s of
        None \<Rightarrow> None
      | Some (v, r) \<Rightarrow>
          (case skip_ws r of
             [] \<Rightarrow> None
           | d # r' \<Rightarrow>
               if d = CHR '','' then
                 (case parse_elems f r' of
                    None \<Rightarrow> None
                  | Some (vs, r'') \<Rightarrow> Some (v # vs, r''))
               else if d = CHR '']'' then Some ([v], r')
               else None))"
| "parse_members 0 s = None"
| "parse_members (Suc f) s =
     (case skip_ws s of
        [] \<Rightarrow> None
      | q # cs \<Rightarrow>
          if q \<noteq> CHR 0x22 then None
          else
            (case parse_string cs of
               None \<Rightarrow> None
             | Some (k, r) \<Rightarrow>
                 (case skip_ws r of
                    [] \<Rightarrow> None
                  | colon # r1 \<Rightarrow>
                      if colon \<noteq> CHR '':'' then None
                      else
                        (case parse_value f r1 of
                           None \<Rightarrow> None
                         | Some (v, r2) \<Rightarrow>
                             (case skip_ws r2 of
                                [] \<Rightarrow> None
                              | d # r3 \<Rightarrow>
                                  if d = CHR '','' then
                                    (case parse_members f r3 of
                                       None \<Rightarrow> None
                                     | Some (ms, r4) \<Rightarrow> Some ((k, v) # ms, r4))
                                  else if d = CHR ''}'' then Some ([(k, v)], r3)
                                  else None)))))"
definition JSON_parse :: "string \<Rightarrow> json option" where
  "JSON_parse s =
     (case parse_value (Suc (length s)) s of
        None \<Rightarrow> None
      | Some (v, r) \<Rightarrow> if skip_ws r = [] then Some v else None)"

subsection \<open>Orders as JSON\<close>

text \<open>
  \<^verbatim>\<open>JSON.stringify\<close> writes an order as the object of its properties, leaving out those
  whose value is \<^verbatim>\<open>undefined\<close> (in the model: the optional properties that are \<open>None\<close>);
  it writes NaN as \<^verbatim>\<open>null\<close>, and the \<^verbatim>\<open>type\<close>, \<^verbatim>\<open>side\<close> and \<^verbatim>\<open>status\<close> as their strings.
  The properties are taken in the order of the object literal of \<^verbatim>\<open>addOrder\<close>, followed by
  the properties that the literal does not set, in the order of the interface. The
  metadata \<^verbatim>\<open>customData\<close> is opaque in the model: \<open>cj\<close> gives the JSON value that
  \<^verbatim>\<open>JSON.stringify\<close> writes for it.
\<close>

definition number_json :: "number \<Rightarrow> json" where
  "number_json x = (case x of Num r \<Rightarrow> JNumber r | NaN \<Rightarrow> JNull)"

fun side_string :: "OrderSide \<Rightarrow> string" where
  "side_string buy = ''buy''"
| "side_string sell = ''sell''"

fun status_string :: "OrderStatus \<Rightarrow> string" where
  "status_string pending = ''pending''"
| "status_string filled = ''filled''"
| "status_string cancelled = ''cancelled''"
| "status_string partially_filled = ''partially_filled''"

definition order_properties :: "(customData \<Rightarrow> json) \<Rightarrow> TradingOrder \<Rightarrow> (string \<times> json option) list" where
  "order_properties cj order =
     [(''id'', Some (JString (o_id order))),
      (''type'', Some (JString (type_string (o_type order)))),
      (''side'', Some (JString (side_string (o_side order)))),
      (''price'', Some (number_json (o_price order))),
      (''quantity'', Some (number_json (o_quantity order))),
      (''symbol'', Some (JString (o_symbol order))),
      (''status'', Some (JString (status_string (o_status order)))),
      (''timestamp'', Some (number_json (o_timestamp order))),
      (''text'', map_option JString (o_text order)),
      (''entryPrice'', map_option number_json (o_entryPrice order)),
      (''stopLoss'', map_option number_json (o_stopLoss order)),
      (''takeProfit'', map_option number_json (o_takeProfit order)),
      (''customData'', map_option cj (o_customData order)),
      (''pnl'', map_option number_json (o_pnl order)),
      (''unrealizedPnl'', map_option number_json (o_unrealizedPnl order)),
      (''fees'', map_option number_json (o_fees order)),
      (''fillPrice'', map_option number_json (o_fillPrice order)),
      (''fillQuantity'', map_option number_json (o_fillQuantity order))]"

fun defined_properties :: "(string \<times> json option) list \<Rightarrow> (string \<times> json) list" where
  "defined_properties [] = []"
| "defined_properties ((k, None) # ps) = defined_properties ps"
| "defined_properties ((k, Some v) # ps) = (k, v) # defined_properties ps"

definition order_json :: "(customData \<Rightarrow> json) \<Rightarrow> TradingOrder \<Rightarrow> json" where
  "order_json cj order = JObject (defined_properties (order_properties cj order))"



subsection \<open>JSON-representable orders\<close>






text \<open>Notions for the proofs: white space, the end of a number token, and a number whose
  text is a number token that reads back as the number.\<close>

definition all_ws :: "string \<Rightarrow> bool" where
  "all_ws w = (\<forall>c\<in>set w. is_ws c)"






section \<open>The specification's words, for comparison with the code\<close>


definition spec_missing :: "string option \<Rightarrow> bool" where
  "spec_missing x = (x = None \<or> x = Some [])"


text \<open>
  What the code refuses: a request in which type, side or symbol is missing, or price or
  quantity is absent, not of type number, or a number that is at most 0. A price or a
  quantity that is NaN is neither acceptable nor refused.
\<close>

definition spec_at_most_0 :: "number option \<Rightarrow> bool" where
  "spec_at_most_0 x = (case x of Some (Num v) \<Rightarrow> v \<le> 0 | Some NaN \<Rightarrow> False | None \<Rightarrow> True)"

definition spec_refused :: "CreateOrderOptions \<Rightarrow> bool" where
  "spec_refused orderOptions =
     (c_type orderOptions = None \<or> c_side orderOptions = None \<or>
      spec_missing (c_symbol orderOptions) \<or>
      spec_at_most_0 (c_price orderOptions) \<or> spec_at_most_0 (c_quantity orderOptions))"

text \<open>The identifier of the order: the caller's, or a generated one if absent (or empty).\<close>

definition spec_assigned_id :: "Env \<Rightarrow> CreateOrderOptions \<Rightarrow> string" where
  "spec_assigned_id env orderOptions =
     (case c_id orderOptions of
        None \<Rightarrow> generatedId env
      | Some i \<Rightarrow> if i = [] then generatedId env else i)"

text \<open>Requests and an environment for the worked examples.\<close>

definition sample_options :: "string option \<Rightarrow> number option \<Rightarrow> string option \<Rightarrow> CreateOrderOptions" where
  "sample_options i p sy =
     \<lparr> c_id = i, c_type = Some limit, c_side = Some buy, c_price = p, c_quantity = Some (Num 1),
       c_symbol = sy, c_status = None, c_text = None, c_entryPrice = None, c_stopLoss = None,
       c_takeProfit = None, c_customData = None \<rparr>"

definition sample_env :: Env where
  "sample_env =
     \<lparr> generatedId = ''order_1700000000000_k3j9x2abc'', now = 1700000000000,
       createOverlayResult = Some ''overlay_1'' \<rparr>"

text \<open>A store of four orders, in the order of their insertion.\<close>

definition sample_typed :: "string \<Rightarrow> OrderType \<Rightarrow> number \<Rightarrow> OrderStatus \<Rightarrow> TradingOrder" where
  "sample_typed i tp p st = (sample_order buy p None (Num 1) st)\<lparr> o_id := i, o_type := tp \<rparr>"

definition sample_store :: OrderManager where
  "sample_store =
     (new_OrderManager None)\<lparr> orders :=
        [(''a'', sample_typed ''a'' limit (Num 100) pending),
         (''b'', sample_typed ''b'' take_profit (Num 90) pending),
         (''c'', sample_typed ''c'' entry (Num 100) filled),
         (''d'', sample_typed ''d'' entry (Num 50) pending)] \<rparr>"

text \<open>A store to which limit orders at 3, at NaN and at 1 were added, in this order.\<close>

definition nan_store :: OrderManager where
  "nan_store =
     (new_OrderManager None)\<lparr> orders :=
        [(''p'', sample_typed ''p'' limit (Num 3) pending),
         (''q'', sample_typed ''q'' limit NaN pending),
         (''r'', sample_typed ''r'' limit (Num 1) pending)] \<rparr>"

text \<open>A callback object with all four handlers, and the overlay the manager creates for an order.\<close>

definition sample_callback :: OrderCallback where
  "sample_callback =
     \<lparr> cb_ref = 1, onOrderEvent = True, onPriceChange = True, onCancel = True,
       onOrderClick = True \<rparr>"

definition sample_overlay :: "OrderManager \<Rightarrow> TradingOrder \<Rightarrow> Overlay" where
  "sample_overlay m order =
     \<lparr> points = [(o_price order, o_timestamp order)], extendData = Some (overlayData m order) \<rparr>"

text \<open>
  The merge as the specification words it: every style field present in the partial's
  entry replaces the base field, fields absent in the partial are retained from base.
  (\<^verbatim>\<open>lineColor\<close> and \<^verbatim>\<open>textColor\<close> are required properties of a style.) And the partial
  theme of the README: \<^verbatim>\<open>{ buy: { entry: { lineColor: "#00ff00", textColor: "#00ff00",
  lineWidth: 2 } } }\<close>.
\<close>

definition spec_mergeStyle :: "OrderStyle \<Rightarrow> OrderStyle \<Rightarrow> OrderStyle" where
  "spec_mergeStyle base partial =
     \<lparr> lineColor = lineColor partial,
       textColor = textColor partial,
       backgroundColor = (case backgroundColor partial of None \<Rightarrow> backgroundColor base | Some v \<Rightarrow> Some v),
       lineWidth = (case lineWidth partial of None \<Rightarrow> lineWidth base | Some v \<Rightarrow> Some v),
       lineStyle = (case lineStyle partial of None \<Rightarrow> lineStyle base | Some v \<Rightarrow> Some v),
       fontSize = (case fontSize partial of None \<Rightarrow> fontSize base | Some v \<Rightarrow> Some v),
       showCancelButton = (case showCancelButton partial of None \<Rightarrow> showCancelButton base | Some v \<Rightarrow> Some v),
       draggable = (case draggable partial of None \<Rightarrow> draggable base | Some v \<Rightarrow> Some v) \<rparr>"

definition readme_theme :: PartialTheme where
  "readme_theme =
     \<lparr> pt_buy = Some [''entry'' \<mapsto>
         \<lparr> lineColor = ''#00ff00'', textColor = ''#00ff00'', backgroundColor = None,
           lineWidth = Some 2, lineStyle = None, fontSize = None, showCancelButton = None,
           draggable = None \<rparr>],
       pt_sell = None \<rparr>"

text \<open>The sample store with a chart, a callback, and primitives bound to two of its orders.\<close>

definition sample_bound :: OrderManager where
  "sample_bound =
     sample_store\<lparr> overlayIds := [(''a'', ''overlay_1''), (''c'', ''overlay_2'')],
                   callbacks := [sample_callback], chart := Some Chart \<rparr>"

text \<open>
  What removing an order sends to the chart: the removal of the primitive bound to the
  order, when there is a binding and a chart.
\<close>

definition removal_effects :: "OrderManager \<Rightarrow> string \<Rightarrow> Effect list" where
  "removal_effects m orderId =
     (case map_of (overlayIds m) orderId of
        None \<Rightarrow> []
      | Some overlayId \<Rightarrow>
          if overlayId \<noteq> [] \<and> chart m \<noteq> None then [Chart_removeOverlay overlayId] else [])"

text \<open>
  A sequence of calls of \<open>addOrder\<close>, each with its environment. A call that throws
  leaves the manager as it was, and the caller goes on with the next.
\<close>

fun addOrders :: "(Env \<times> CreateOrderOptions) list \<Rightarrow> OrderManager \<Rightarrow> OrderManager" where
  "addOrders [] m = m"
| "addOrders ((env, orderOptions) # rest) m = addOrders rest (snd (addOrder env orderOptions m))"

text \<open>Three requests: the third has the identifier of the first.\<close>

definition sample_requests :: "(Env \<times> CreateOrderOptions) list" where
  "sample_requests =
     [(sample_env, sample_options (Some ''x'') (Some (Num 100)) (Some ''BTCUSDT'')),
      (sample_env, sample_options (Some ''y'') (Some (Num 200)) (Some ''BTCUSDT'')),
      (sample_env\<lparr> createOverlayResult := Some ''overlay_2'' \<rparr>,
       sample_options (Some ''x'') (Some (Num 300)) (Some ''BTCUSDT''))]"

text \<open>
  The managers the class can be in: what the constructor returns, and what a method or a
  handler makes of such a manager, whether it returns or throws.
\<close>

inductive reachable :: "OrderManager \<Rightarrow> bool" where
  reach_new: "reachable (new_OrderManager c)"
| reach_addOrder: "reachable m \<Longrightarrow> reachable (snd (addOrder env orderOptions m))"
| reach_updateOrder: "reachable m \<Longrightarrow> reachable (snd (updateOrder orderId updates m))"
| reach_removeOrder: "reachable m \<Longrightarrow> reachable (removeOrder orderId m)"
| reach_clearAllOrders: "reachable m \<Longrightarrow> reachable (clearAllOrders m)"
| reach_setTheme: "reachable m \<Longrightarrow> reachable (setTheme th m)"
| reach_setChart: "reachable m \<Longrightarrow> reachable (setChart c m)"
| reach_updateCurrentPrice: "reachable m \<Longrightarrow> reachable (updateCurrentPrice price m)"
| reach_addCallback: "reachable m \<Longrightarrow> reachable (addCallback callback m)"
| reach_removeCallback: "reachable m \<Longrightarrow> reachable (removeCallback callback m)"
| reach_handleOrderCancel: "reachable m \<Longrightarrow> reachable (handleOrderCancel orderId m)"
| reach_handlePriceChange: "reachable m \<Longrightarrow> reachable (handlePriceChange orderId newPrice oldPrice m)"
| reach_handleOrderDragEnd: "reachable m \<Longrightarrow> reachable (handleOrderDragEnd orderId finalPrice m)"
| reach_handleOrderClick: "reachable m \<Longrightarrow> reachable (handleOrderClick orderId m)"


section \<open>Profit and loss\<close>

lemma nneg_nmul_nsub: "nneg (nmul (nsub a b) q) = nmul (nsub b a) q"
  by (cases a; cases b; cases q) (simp_all add: algebra_simps)

lemma or_else_cases:
  "or_else a b = (if a = None \<or> a = Some (Num 0) \<or> a = Some NaN then b else the a)"
  by (auto simp: or_else_def truthy_def split: option.splits number.splits)

text \<open>
  Claim C2, as amended. For every order and reference price, \<open>calculatePnL\<close> returns an
  unrealized PnL of 0 when the status is neither filled nor partially filled; for a filled
  or partially filled order it is (referencePrice - entryPrice) * effectiveQuantity for a
  buy and the negation for a sell, where entryPrice is \<open>order.entryPrice\<close> if present and
  neither 0 nor NaN, else \<open>order.price\<close>, and effectiveQuantity is \<open>fillQuantity\<close> if
  present and neither 0 nor NaN, else \<open>quantity\<close>. Where neither property is 0 or NaN,
  this is the formula as the specification words it.
\<close>

theorem calculatePnL_unrealized:
  "(o_status order \<noteq> filled \<and> o_status order \<noteq> partially_filled \<longrightarrow>
      unrealizedPnl (calculatePnL order referencePrice) = Num 0) \<and>
   ((o_status order = filled \<or> o_status order = partially_filled) \<and> o_side order = buy \<longrightarrow>
      unrealizedPnl (calculatePnL order referencePrice) =
        nmul (nsub referencePrice
                (if o_entryPrice order = None \<or> o_entryPrice order = Some (Num 0) \<or>
                    o_entryPrice order = Some NaN
                 then o_price order else the (o_entryPrice order)))
             (if o_fillQuantity order = None \<or> o_fillQuantity order = Some (Num 0) \<or>
                 o_fillQuantity order = Some NaN
              then o_quantity order else the (o_fillQuantity order))) \<and>
   ((o_status order = filled \<or> o_status order = partially_filled) \<and> o_side order = sell \<longrightarrow>
      unrealizedPnl (calculatePnL order referencePrice) =
        nneg (nmul (nsub referencePrice
                (if o_entryPrice order = None \<or> o_entryPrice order = Some (Num 0) \<or>
                    o_entryPrice order = Some NaN
                 then o_price order else the (o_entryPrice order)))
             (if o_fillQuantity order = None \<or> o_fillQuantity order = Some (Num 0) \<or>
                 o_fillQuantity order = Some NaN
              then o_quantity order else the (o_fillQuantity order)))) \<and>
   (o_entryPrice order \<noteq> Some (Num 0) \<and> o_entryPrice order \<noteq> Some NaN \<and>
    o_fillQuantity order \<noteq> Some (Num 0) \<and> o_fillQuantity order \<noteq> Some NaN \<longrightarrow>
      unrealizedPnl (calculatePnL order referencePrice) = spec_unrealizedPnl order referencePrice)"
proof (intro conjI impI)
  assume "o_status order \<noteq> filled \<and> o_status order \<noteq> partially_filled"
  then show "unrealizedPnl (calculatePnL order referencePrice) = Num 0"
    by (simp add: calculatePnL_def Let_def)
next
  assume "(o_status order = filled \<or> o_status order = partially_filled) \<and> o_side order = buy"
  then show "unrealizedPnl (calculatePnL order referencePrice) =
        nmul (nsub referencePrice
                (if o_entryPrice order = None \<or> o_entryPrice order = Some (Num 0) \<or>
                    o_entryPrice order = Some NaN
                 then o_price order else the (o_entryPrice order)))
             (if o_fillQuantity order = None \<or> o_fillQuantity order = Some (Num 0) \<or>
                 o_fillQuantity order = Some NaN
              then o_quantity order else the (o_fillQuantity order))"
    by (simp only: calculatePnL_def Let_def or_else_cases) auto
next
  assume "(o_status order = filled \<or> o_status order = partially_filled) \<and> o_side order = sell"
  then show "unrealizedPnl (calculatePnL order referencePrice) =
        nneg (nmul (nsub referencePrice
                (if o_entryPrice order = None \<or> o_entryPrice order = Some (Num 0) \<or>
                    o_entryPrice order = Some NaN
                 then o_price order else the (o_entryPrice order)))
             (if o_fillQuantity order = None \<or> o_fillQuantity order = Some (Num 0) \<or>
                 o_fillQuantity order = Some NaN
              then o_quantity order else the (o_fillQuantity order)))"
    by (simp only: calculatePnL_def Let_def or_else_cases nneg_nmul_nsub) auto
next
  assume h: "o_entryPrice order \<noteq> Some (Num 0) \<and> o_entryPrice order \<noteq> Some NaN \<and>
    o_fillQuantity order \<noteq> Some (Num 0) \<and> o_fillQuantity order \<noteq> Some NaN"
  have e: "or_else (o_entryPrice order) (o_price order) = spec_entryPrice order"
    using h by (auto simp: or_else_cases spec_entryPrice_def split: option.splits)
  have q: "or_else (o_fillQuantity order) (o_quantity order) = spec_effectiveQuantity order"
    using h by (auto simp: or_else_cases spec_effectiveQuantity_def split: option.splits)
  show "unrealizedPnl (calculatePnL order referencePrice) = spec_unrealizedPnl order referencePrice"
    by (cases "o_side order")
      (simp_all add: calculatePnL_def Let_def e q spec_unrealizedPnl_def nneg_nmul_nsub)
qed

text \<open>
  The examples of the specification: a filled buy with entry price 100 and quantity 1 at
  reference price 110 has unrealized PnL 10, the same sell has -10, and a pending order 0.
  A filled buy at price 50 whose entry price is NaN has (110 - 50) * 1 = 60.
\<close>

theorem calculatePnL_unrealized_witness:
  "unrealizedPnl (calculatePnL (sample_order buy (Num 100) (Some (Num 100)) (Num 1) filled) (Num 110))
     = Num 10 \<and>
   unrealizedPnl (calculatePnL (sample_order sell (Num 100) (Some (Num 100)) (Num 1) filled) (Num 110))
     = Num (- 10) \<and>
   unrealizedPnl (calculatePnL (sample_order buy (Num 100) (Some (Num 100)) (Num 1) pending) (Num 110))
     = Num 0 \<and>
   unrealizedPnl (calculatePnL (sample_order buy (Num 50) (Some NaN) (Num 1) filled) (Num 110))
     = Num 60"
  using calculatePnL_unrealized [of "sample_order buy (Num 100) (Some (Num 100)) (Num 1) filled" "Num 110"]
    calculatePnL_unrealized [of "sample_order sell (Num 100) (Some (Num 100)) (Num 1) filled" "Num 110"]
    calculatePnL_unrealized [of "sample_order buy (Num 100) (Some (Num 100)) (Num 1) pending" "Num 110"]
    calculatePnL_unrealized [of "sample_order buy (Num 50) (Some NaN) (Num 1) filled" "Num 110"]
  by (simp add: sample_order_def)

text \<open>
  Claim C2 as stated fails where \<open>entryPrice\<close> is present and 0: a filled buy at price 50
  with \<open>entryPrice: 0\<close> and quantity 1 has, at reference price 110, the unrealized PnL
  (110 - 50) * 1 = 60 in the code, and (110 - 0) * 1 = 110 by the stated formula.
\<close>

theorem calculatePnL_unrealized_counterexample:
  "unrealizedPnl (calculatePnL (sample_order buy (Num 50) (Some (Num 0)) (Num 1) filled) (Num 110))
     = Num 60 \<and>
   spec_unrealizedPnl (sample_order buy (Num 50) (Some (Num 0)) (Num 1) filled) (Num 110) = Num 110 \<and>
   unrealizedPnl (calculatePnL (sample_order buy (Num 50) (Some (Num 0)) (Num 1) filled) (Num 110))
     \<noteq> spec_unrealizedPnl (sample_order buy (Num 50) (Some (Num 0)) (Num 1) filled) (Num 110)"
  by (simp add: calculatePnL_def sample_order_def or_else_def truthy_def spec_unrealizedPnl_def
      spec_entryPrice_def spec_effectiveQuantity_def Let_def)

text \<open>
  Claim C3, as amended. For every order that has no \<open>entryPrice\<close> and every reference
  price, \<open>calculatePnL\<close> computes with \<open>order.price\<close> as the entry price: the result is
  that of the same order with \<open>entryPrice = order.price\<close>. When the status is neither
  filled nor partially filled, the unrealized and the realized PnL are 0 and the net PnL
  is minus the fees, whatever the side, the price and the reference price.
\<close>

theorem calculatePnL_no_entryPrice:
  assumes "o_entryPrice order = None"
  shows "calculatePnL order referencePrice =
           calculatePnL (order\<lparr> o_entryPrice := Some (o_price order) \<rparr>) referencePrice \<and>
         (o_status order \<noteq> filled \<and> o_status order \<noteq> partially_filled \<longrightarrow>
           unrealizedPnl (calculatePnL order referencePrice) = Num 0 \<and>
           realizedPnl (calculatePnL order referencePrice) = Num 0 \<and>
           netPnl (calculatePnL order referencePrice) = nneg (fees (calculatePnL order referencePrice)) \<and>
           fees (calculatePnL order referencePrice) = or_else (o_fees order) (Num 0))"
proof (intro conjI impI)
  have "or_else (Some (o_price order)) (o_price order) = o_price order"
    by (simp add: or_else_def)
  with assms show "calculatePnL order referencePrice =
           calculatePnL (order\<lparr> o_entryPrice := Some (o_price order) \<rparr>) referencePrice"
    by (simp add: calculatePnL_def Let_def or_else_def [of None] split: option.splits)
next
  assume h: "o_status order \<noteq> filled \<and> o_status order \<noteq> partially_filled"
  then show "unrealizedPnl (calculatePnL order referencePrice) = Num 0"
    by (simp add: calculatePnL_def Let_def)
  from h show "realizedPnl (calculatePnL order referencePrice) = Num 0"
    by (simp add: calculatePnL_def Let_def split: option.splits)
  show f: "fees (calculatePnL order referencePrice) = or_else (o_fees order) (Num 0)"
    by (simp add: calculatePnL_def Let_def)
  have "\<exists>c. or_else (o_fees order) (Num 0) = Num c"
    by (auto simp: or_else_def truthy_def split: option.splits number.splits)
  then obtain c where c: "or_else (o_fees order) (Num 0) = Num c"
    by blast
  from h show "netPnl (calculatePnL order referencePrice) = nneg (fees (calculatePnL order referencePrice))"
    by (simp add: calculatePnL_def Let_def c split: option.splits)
qed

theorem calculatePnL_no_entryPrice_witness:
  "o_entryPrice (sample_order sell (Num 100) None (Num 2) pending) = None \<and>
   unrealizedPnl (calculatePnL (sample_order sell (Num 100) None (Num 2) pending) (Num 110)) = Num 0 \<and>
   realizedPnl (calculatePnL (sample_order sell (Num 100) None (Num 2) pending) (Num 110)) = Num 0 \<and>
   netPnl (calculatePnL (sample_order sell (Num 100) None (Num 2) pending) (Num 110)) = Num 0 \<and>
   calculatePnL (sample_order sell (Num 100) None (Num 2) filled) (Num 110) =
     calculatePnL (sample_order sell (Num 100) (Some (Num 100)) (Num 2) filled) (Num 110)"
proof -
  have h: "o_entryPrice (sample_order sell (Num 100) None (Num 2) pending) = None"
    by (simp add: sample_order_def)
  have h': "o_entryPrice (sample_order sell (Num 100) None (Num 2) filled) = None"
    by (simp add: sample_order_def)
  show ?thesis
    using h calculatePnL_no_entryPrice [OF h, of "Num 110"]
      calculatePnL_no_entryPrice [OF h', of "Num 110"]
    by (simp add: sample_order_def or_else_def truthy_def calculatePnL_def)
qed

text \<open>
  Claim C3 as stated fails for a filled order: a filled buy at price 100 with no
  \<open>entryPrice\<close> and quantity 1 has, at reference price 110, the unrealized PnL
  (110 - 100) * 1 = 10, not 0.
\<close>

theorem calculatePnL_no_entryPrice_counterexample:
  "o_entryPrice (sample_order buy (Num 100) None (Num 1) filled) = None \<and>
   unrealizedPnl (calculatePnL (sample_order buy (Num 100) None (Num 1) filled) (Num 110)) = Num 10 \<and>
   netPnl (calculatePnL (sample_order buy (Num 100) None (Num 1) filled) (Num 110))
     \<noteq> nneg (fees (calculatePnL (sample_order buy (Num 100) None (Num 1) filled) (Num 110)))"
  by (simp add: calculatePnL_def sample_order_def or_else_def truthy_def Let_def)

section \<open>Creating orders\<close>

lemma not_positive_at_most_0: "not_positive x \<longleftrightarrow> spec_at_most_0 x"
  by (auto simp: not_positive_def spec_at_most_0_def split: option.splits number.splits)

lemma falsy_string_missing: "falsy_string x \<longleftrightarrow> spec_missing x"
  by (auto simp: falsy_string_def spec_missing_def split: option.splits)

text \<open>\<open>validateOrder\<close> reports an error exactly for the requests the code refuses.\<close>

lemma validateOrder_refused:
  "validateOrder (draft env opts) \<noteq> [] \<longleftrightarrow> spec_refused opts"
  by (auto simp: validateOrder_def draft_def spec_refused_def not_positive_at_most_0
      falsy_string_missing)


lemma validateOrder_complete:
  "validateOrder d = [] \<Longrightarrow> p_id d \<noteq> None \<Longrightarrow> p_status d \<noteq> None \<Longrightarrow> p_timestamp d \<noteq> None
     \<Longrightarrow> complete d \<noteq> None"
  by (auto simp: validateOrder_def complete_def not_positive_def falsy_string_def
      split: option.splits if_splits)

lemma complete_draft:
  assumes "validateOrder (draft env opts) = []"
  shows "\<exists>order. complete (draft env opts) = Some order \<and>
           o_id order = spec_assigned_id env opts \<and>
           o_status order = (case c_status opts of None \<Rightarrow> pending | Some st \<Rightarrow> st) \<and>
           Some (o_type order) = c_type opts \<and> Some (o_side order) = c_side opts \<and>
           Some (o_price order) = c_price opts \<and> Some (o_quantity order) = c_quantity opts \<and>
           Some (o_symbol order) = c_symbol opts \<and> o_timestamp order = Num (now env)"
proof -
  from assms have "\<not> spec_refused opts"
    using validateOrder_refused by blast
  then show ?thesis
    by (auto simp: spec_refused_def spec_missing_def spec_at_most_0_def complete_def draft_def
        spec_assigned_id_def split: option.splits)
qed

lemma orders_notifyCallbacks [simp]: "orders (notifyCallbacks i ev ord m) = orders m"
  by (simp add: notifyCallbacks_def)

lemma orders_createOrderOverlay [simp]: "orders (createOrderOverlay env ord m) = orders m"
  by (simp add: createOrderOverlay_def Let_def split: option.splits)





section \<open>The order of \<open>getAllOrders\<close>\<close>

lemma getOrderPriority_table:
  "getOrderPriority order =
     (case o_type order of entry \<Rightarrow> Num 1 | market \<Rightarrow> Num 2 | limit \<Rightarrow> Num 3
        | stop_loss \<Rightarrow> Num 4 | take_profit \<Rightarrow> Num 5)"
  by (simp add: getOrderPriority_def or_else_def truthy_def split: OrderType.splits)

lemma getOrderPriority_Num: "\<exists>p. getOrderPriority order = Num p"
  by (simp add: getOrderPriority_table split: OrderType.splits)

text \<open>On orders whose prices are not NaN the comparator is the order of the specification.\<close>

lemma compareOrders_sorts_before:
  assumes "o_price a \<noteq> NaN" and "o_price b \<noteq> NaN"
  shows "sort_reads (compareOrders a b) \<le> 0 \<longleftrightarrow> spec_sorts_before a b"
proof -
  obtain p q where p: "getOrderPriority a = Num p" and q: "getOrderPriority b = Num q"
    using getOrderPriority_Num by blast
  obtain x y where x: "o_price a = Num x" and y: "o_price b = Num y"
    using assms by (cases "o_price a"; cases "o_price b") auto
  show ?thesis
    by (auto simp: compareOrders_def spec_sorts_before_def sort_reads_def Let_def p q x y)
qed

lemma sorts_before_total:
  assumes "o_price a \<noteq> NaN" and "o_price b \<noteq> NaN"
  shows "\<not> spec_sorts_before a b \<Longrightarrow> spec_sorts_before b a"
proof -
  obtain p q where p: "getOrderPriority a = Num p" and q: "getOrderPriority b = Num q"
    using getOrderPriority_Num by blast
  obtain x y where x: "o_price a = Num x" and y: "o_price b = Num y"
    using assms by (cases "o_price a"; cases "o_price b") auto
  show "\<not> spec_sorts_before a b \<Longrightarrow> spec_sorts_before b a"
    by (auto simp: spec_sorts_before_def p q x y)
qed

lemma sorts_before_trans:
  assumes ab: "spec_sorts_before a b" and bc: "spec_sorts_before b c"
  shows "spec_sorts_before a c"
proof -
  obtain p q r where p: "getOrderPriority a = Num p" and q: "getOrderPriority b = Num q"
    and r: "getOrderPriority c = Num r"
    using getOrderPriority_Num by blast
  from ab bc show ?thesis
    by (cases "o_price a"; cases "o_price b"; cases "o_price c")
      (auto simp: spec_sorts_before_def p q r)
qed

lemma set_sort_insert: "set (sort_insert f x xs) = insert x (set xs)"
  by (induction xs) auto

lemma mset_sort_insert: "mset (sort_insert f x xs) = add_mset x (mset xs)"
  by (induction xs) auto

lemma mset_array_sort: "mset (array_sort f xs) = mset xs"
  by (induction xs) (auto simp: mset_sort_insert)

lemma set_array_sort: "set (array_sort f xs) = set xs"
  by (induction xs) (auto simp: set_sort_insert)

text \<open>
  Inserting into a sorted array keeps it sorted, when no price is NaN: there the
  comparator is total and transitive.
\<close>

lemma sorted_sort_insert:
  "sorted_wrt spec_sorts_before xs \<Longrightarrow> o_price x \<noteq> NaN \<Longrightarrow> \<forall>y\<in>set xs. o_price y \<noteq> NaN \<Longrightarrow>
     sorted_wrt spec_sorts_before (sort_insert compareOrders x xs)"
proof (induction xs)
  case Nil
  then show ?case by simp
next
  case (Cons y ys)
  from Cons.prems have ny: "o_price y \<noteq> NaN" and nx: "o_price x \<noteq> NaN" by auto
  show ?case
  proof (cases "sort_reads (compareOrders x y) \<le> 0")
    case True
    then have xy: "spec_sorts_before x y"
      using compareOrders_sorts_before [OF nx ny] by simp
    have "\<forall>z\<in>set ys. spec_sorts_before x z"
      using Cons.prems(1) xy by (auto intro: sorts_before_trans)
    with True xy Cons.prems(1) show ?thesis by simp
  next
    case False
    then have "\<not> spec_sorts_before x y"
      using compareOrders_sorts_before [OF nx ny] by simp
    then have yx: "spec_sorts_before y x"
      by (rule sorts_before_total [OF nx ny])
    from Cons.prems have "sorted_wrt spec_sorts_before ys" and "\<forall>z\<in>set ys. o_price z \<noteq> NaN"
      by auto
    then have "sorted_wrt spec_sorts_before (sort_insert compareOrders x ys)"
      using Cons.IH nx by blast
    with False yx Cons.prems(1) show ?thesis by (auto simp: set_sort_insert)
  qed
qed

lemma sorted_sortOrders:
  "\<forall>y\<in>set xs. o_price y \<noteq> NaN \<Longrightarrow> sorted_wrt spec_sorts_before (sortOrders xs)"
  unfolding sortOrders_def
proof (induction xs)
  case Nil
  then show ?case by simp
next
  case (Cons x xs)
  then have "sorted_wrt spec_sorts_before (array_sort compareOrders xs)" by simp
  moreover from Cons.prems have "o_price x \<noteq> NaN" by simp
  moreover from Cons.prems have "\<forall>y\<in>set (array_sort compareOrders xs). o_price y \<noteq> NaN"
    by (simp add: set_array_sort)
  ultimately show ?case
    by (simp add: sorted_sort_insert)
qed

text \<open>
  Claim C4, as amended. For every store in which no order has a price that is NaN,
  \<open>getAllOrders\<close> returns its orders (each one, as often as it is stored) sorted by the
  priority table entry = 1 < market = 2 < limit = 3 < stop_loss = 4 < take_profit = 5
  and, within equal priority, by ascending price. Every entry order stands before every
  limit order, whatever their prices.
\<close>

theorem getAllOrders_sorted:
  assumes "NaN \<notin> set (map (\<lambda>entry. o_price (snd entry)) (orders m))"
  shows "sorted_wrt spec_sorts_before (getAllOrders m) \<and>
   mset (getAllOrders m) = mset (map snd (orders m)) \<and>
   getOrderPriority a =
     (case o_type a of entry \<Rightarrow> Num 1 | market \<Rightarrow> Num 2 | limit \<Rightarrow> Num 3
        | stop_loss \<Rightarrow> Num 4 | take_profit \<Rightarrow> Num 5) \<and>
   (\<forall>i j. i < length (getAllOrders m) \<and> j < length (getAllOrders m) \<and>
      o_type (getAllOrders m ! i) = entry \<and> o_type (getAllOrders m ! j) = limit \<longrightarrow> i < j)"
proof (intro conjI allI impI)
  from assms have "\<forall>y\<in>set (map snd (orders m)). o_price y \<noteq> NaN"
    by force
  then show s: "sorted_wrt spec_sorts_before (getAllOrders m)"
    unfolding getAllOrders_def by (rule sorted_sortOrders)
  show "mset (getAllOrders m) = mset (map snd (orders m))"
    by (simp add: getAllOrders_def sortOrders_def mset_array_sort)
  show "getOrderPriority a =
     (case o_type a of entry \<Rightarrow> Num 1 | market \<Rightarrow> Num 2 | limit \<Rightarrow> Num 3
        | stop_loss \<Rightarrow> Num 4 | take_profit \<Rightarrow> Num 5)"
    by (rule getOrderPriority_table)
  fix i j
  assume h: "i < length (getAllOrders m) \<and> j < length (getAllOrders m) \<and>
      o_type (getAllOrders m ! i) = entry \<and> o_type (getAllOrders m ! j) = limit"
  show "i < j"
  proof (rule ccontr)
    assume "\<not> i < j"
    with h have "j < i" by (cases "i = j") auto
    with s h have "spec_sorts_before (getAllOrders m ! j) (getAllOrders m ! i)"
      by (simp add: sorted_wrt_nth_less)
    with h show False
      by (simp add: spec_sorts_before_def getOrderPriority_table)
  qed
qed

text \<open>
  The store holding a limit order at 100, a take-profit at 90, an entry at 100 and an
  entry at 50 is listed as entry 50, entry 100, limit 100, take-profit 90.
\<close>

theorem getAllOrders_sorted_witness:
  "NaN \<notin> set (map (\<lambda>entry. o_price (snd entry)) (orders sample_store)) \<and>
   map o_id (getAllOrders sample_store) = [''d'', ''c'', ''a'', ''b''] \<and>
   sorted_wrt spec_sorts_before (getAllOrders sample_store)"
proof -
  have h: "NaN \<notin> set (map (\<lambda>entry. o_price (snd entry)) (orders sample_store))"
    by (simp add: sample_store_def sample_typed_def sample_order_def new_OrderManager_def)
  have "map o_id (getAllOrders sample_store) = [''d'', ''c'', ''a'', ''b'']"
    by (simp add: getAllOrders_def sortOrders_def sample_store_def sample_typed_def
        sample_order_def compareOrders_def getOrderPriority_def or_else_def truthy_def
        sort_reads_def new_OrderManager_def Let_def)
  with h getAllOrders_sorted [OF h] show ?thesis
    by blast
qed

text \<open>
  Claim C4 as stated fails for a store that holds a price that is NaN: the comparator's
  result for such an order is NaN, which the sort reads as 0. The store to which limit
  orders at 3, at NaN and at 1 were added, in this order, is listed in this order: 3
  before 1.
\<close>

theorem getAllOrders_sorted_counterexample:
  "map o_price (getAllOrders nan_store) = [Num 3, NaN, Num 1] \<and>
   \<not> spec_sorts_before (sample_typed ''p'' limit (Num 3) pending)
       (sample_typed ''r'' limit (Num 1) pending) \<and>
   \<not> sorted_wrt spec_sorts_before (getAllOrders nan_store)"
  by (simp add: getAllOrders_def sortOrders_def nan_store_def sample_typed_def
      sample_order_def compareOrders_def getOrderPriority_def or_else_def truthy_def
      sort_reads_def new_OrderManager_def Let_def spec_sorts_before_def)

section \<open>The drag protocol\<close>

text \<open>
  Claim C5. For every order, the pressed-move-start query on its overlay answers yes if
  and only if the status of the order is \<open>pending\<close>; with any other status it answers no,
  which vetoes the drag.
\<close>

theorem onPressedMoveStart_pending:
  "onPressedMoveStart \<lparr> points = ps, extendData = Some orderData \<rparr>
     = (o_status (d_order orderData) = pending)"
  by (simp add: onPressedMoveStart_def isOrderDraggable_def)

text \<open>The query on the overlay of a pending order and on that of a filled order.\<close>

theorem onPressedMoveStart_pending_witness:
  "onPressedMoveStart (sample_overlay sample_store (sample_typed ''d'' entry (Num 50) pending)) \<and>
   \<not> onPressedMoveStart (sample_overlay sample_store (sample_typed ''c'' entry (Num 100) filled))"
  using onPressedMoveStart_pending
      [of "[(Num 50, Num 0)]" "overlayData sample_store (sample_typed ''d'' entry (Num 50) pending)"]
    onPressedMoveStart_pending
      [of "[(Num 100, Num 0)]" "overlayData sample_store (sample_typed ''c'' entry (Num 100) filled)"]
  by (simp add: sample_overlay_def overlayData_def sample_typed_def sample_order_def)

text \<open>
  With the manager as the class makes it, the end of a drag writes one line to the
  console: \<open>handleOrderDragEnd\<close> calls no handler of a registered callback, and an
  \<^verbatim>\<open>OrderCallback\<close> has no handler for the end of a drag.
\<close>

lemma onPressedMoveEnd_only_logs:
  "onPressedMoveEnd \<lparr> points = ps, extendData = Some orderData \<rparr> (Some (m, Some handleOrderDragEnd)) =
     (True,
      Some (m\<lparr> trace := trace m @
                 [Console_log_dragEnded (o_id (d_order orderData)) (o_price (d_order orderData))] \<rparr>))"
  by (simp add: onPressedMoveEnd_def handleOrderDragEnd_def)



section \<open>Themes\<close>

lemma theme_updateOrderOverlay [simp]: "theme (updateOrderOverlay ord m) = theme m"
  by (simp add: updateOrderOverlay_def split: option.splits)

lemma theme_fold_update:
  "theme (fold (\<lambda>entry. updateOrderOverlay (snd entry)) xs m) = theme m"
  by (induction xs arbitrary: m) auto

lemma theme_refreshAllOrders [simp]: "theme (refreshAllOrders m) = theme m"
  by (simp add: refreshAllOrders_def theme_fold_update)

text \<open>
  Claim C7, as amended. Merging a partial theme into a base theme changes only the
  (side, type) entries the partial has: such an entry replaces the base entry as a whole
  (its style is the partial's, and no field of the base entry is retained), every entry
  the partial's side does not have is the base's, and a side the partial does not have
  is the base's. \<open>setTheme\<close> leaves a side the partial does not have as it was.
\<close>

theorem mergeThemes_entries:
  "(pt_buy custom = None \<longrightarrow> t_buy (mergeThemes base custom) = t_buy base) \<and>
   (pt_sell custom = None \<longrightarrow> t_sell (mergeThemes base custom) = t_sell base) \<and>
   (\<forall>c. pt_buy custom = Some c \<longrightarrow>
      t_buy (mergeThemes base custom) k = (case c k of None \<Rightarrow> t_buy base k | Some st \<Rightarrow> Some st)) \<and>
   (\<forall>c. pt_sell custom = Some c \<longrightarrow>
      t_sell (mergeThemes base custom) k = (case c k of None \<Rightarrow> t_sell base k | Some st \<Rightarrow> Some st)) \<and>
   (pt_buy custom = None \<longrightarrow> t_buy (theme (setTheme custom m)) = t_buy (theme m)) \<and>
   (pt_sell custom = None \<longrightarrow> t_sell (theme (setTheme custom m)) = t_sell (theme m))"
  by (auto simp: mergeThemes_def spread_def setTheme_def map_add_def split: option.splits)

text \<open>
  The README's partial theme merged into the dark theme: the buy entry style is the
  partial's, the buy limit style and the sell side are the dark theme's.
\<close>

theorem mergeThemes_entries_witness:
  "t_buy (mergeThemes darkTheme readme_theme) ''entry'' =
     Some \<lparr> lineColor = ''#00ff00'', textColor = ''#00ff00'', backgroundColor = None,
           lineWidth = Some 2, lineStyle = None, fontSize = None, showCancelButton = None,
           draggable = None \<rparr> \<and>
   t_buy (mergeThemes darkTheme readme_theme) ''limit'' = t_buy darkTheme ''limit'' \<and>
   t_sell (mergeThemes darkTheme readme_theme) = t_sell darkTheme \<and>
   t_sell (theme (setTheme readme_theme sample_store)) = t_sell darkTheme"
  using mergeThemes_entries [of readme_theme darkTheme "''entry''" sample_store]
    mergeThemes_entries [of readme_theme darkTheme "''limit''" sample_store]
  by (simp add: readme_theme_def sample_store_def new_OrderManager_def defaultTheme_def)

text \<open>
  Claim C7 as stated fails for the fields of an overridden entry that the partial leaves
  out: the README's partial theme has no \<^verbatim>\<open>backgroundColor\<close> for the buy entry style, and
  after the merge into the dark theme that style has none either, where the dark theme
  had \<^verbatim>\<open>rgba(66, 165, 245, 0.1)\<close>.
\<close>

theorem mergeThemes_entries_counterexample:
  "t_buy darkTheme ''entry'' = Some (darkStyle ''#42a5f5'' solid ''rgba(66, 165, 245, 0.1)'') \<and>
   pt_buy readme_theme = Some [''entry'' \<mapsto>
         \<lparr> lineColor = ''#00ff00'', textColor = ''#00ff00'', backgroundColor = None,
           lineWidth = Some 2, lineStyle = None, fontSize = None, showCancelButton = None,
           draggable = None \<rparr>] \<and>
   map_option backgroundColor (t_buy (mergeThemes darkTheme readme_theme) ''entry'') = Some None \<and>
   map_option backgroundColor (t_buy darkTheme ''entry'') = Some (Some ''rgba(66, 165, 245, 0.1)'') \<and>
   t_buy (mergeThemes darkTheme readme_theme) ''entry'' \<noteq>
     Some (spec_mergeStyle (darkStyle ''#42a5f5'' solid ''rgba(66, 165, 245, 0.1)'')
       \<lparr> lineColor = ''#00ff00'', textColor = ''#00ff00'', backgroundColor = None,
           lineWidth = Some 2, lineStyle = None, fontSize = None, showCancelButton = None,
           draggable = None \<rparr>)"
  by (simp add: darkTheme_def readme_theme_def mergeThemes_def spread_def darkStyle_def
      spec_mergeStyle_def)

section \<open>Removing orders\<close>

lemma length_delete_distinct:
  "distinct (map fst al) \<Longrightarrow> map_of al k = Some v \<Longrightarrow> Suc (length (AList.delete k al)) = length al"
proof (induction al)
  case Nil
  then show ?case by simp
next
  case (Cons p ps)
  show ?case
  proof (cases "fst p = k")
    case True
    with Cons.prems have "k \<notin> fst ` set ps" by auto
    then have "AList.delete k ps = ps"
      by simp
    with True show ?thesis by (cases p) (simp add: AList.delete_eq)
  next
    case False
    with Cons show ?thesis by (cases p) (auto simp: AList.delete_eq)
  qed
qed

lemma removeOverlayOf_fields [simp]:
  "orders (removeOverlayOf i m) = orders m"
  "overlayIds (removeOverlayOf i m) = overlayIds m"
  "callbacks (removeOverlayOf i m) = callbacks m"
  "trace (removeOverlayOf i m) = trace m @ removal_effects m i"
  by (simp_all add: removeOverlayOf_def removal_effects_def split: option.splits)

text \<open>
  Claim C8. \<open>removeOrder\<close> never throws. For an identifier that is not in the store it
  leaves the manager as it is: store, overlay bindings and trace. For an identifier in the
  store (a \<^verbatim>\<open>Map\<close> has each key once) it first has the chart remove the bound
  primitive, then deletes the record, which makes the store one smaller and leaves the
  other orders, and the binding, and then calls the callbacks with \<open>cancelled\<close> and the
  order as it was stored before the removal.
\<close>

theorem removeOrder_idempotent:
  "(getOrder m orderId = None \<longrightarrow> removeOrder orderId m = m) \<and>
   (\<forall>order. getOrder m orderId = Some order \<and> distinct (map fst (orders m)) \<longrightarrow>
      Suc (length (orders (removeOrder orderId m))) = length (orders m) \<and>
      getOrder (removeOrder orderId m) orderId = None \<and>
      (\<forall>k. k \<noteq> orderId \<longrightarrow> getOrder (removeOrder orderId m) k = getOrder m k) \<and>
      map_of (overlayIds (removeOrder orderId m)) orderId = None \<and>
      trace (removeOrder orderId m) =
        trace m @ removal_effects m orderId @
          map (\<lambda>callback. Call_onOrderEvent (cb_ref callback) orderId ev_cancelled order)
            (filter onOrderEvent (callbacks m)) \<and>
      (\<exists>m2. getOrder m2 orderId = None \<and> trace m2 = trace m @ removal_effects m orderId \<and>
            removeOrder orderId m = notifyCallbacks orderId ev_cancelled order m2))"
proof (intro conjI allI impI)
  assume "getOrder m orderId = None"
  then show "removeOrder orderId m = m"
    by (simp add: removeOrder_def getOrder_def)
next
  fix order
  assume h: "getOrder m orderId = Some order \<and> distinct (map fst (orders m))"
  let ?m2 = "deleteFromMaps orderId (removeOverlayOf orderId m)"
  from h have r: "removeOrder orderId m = notifyCallbacks orderId ev_cancelled order ?m2"
    by (simp add: removeOrder_def getOrder_def)
  have o: "orders (removeOrder orderId m) = AList.delete orderId (orders m)"
    by (simp add: r deleteFromMaps_def)
  from h show "Suc (length (orders (removeOrder orderId m))) = length (orders m)"
    by (simp add: o getOrder_def length_delete_distinct)
  show "getOrder (removeOrder orderId m) orderId = None"
    by (simp add: getOrder_def o delete_conv')
  show "map_of (overlayIds (removeOrder orderId m)) orderId = None"
    by (simp add: r notifyCallbacks_def deleteFromMaps_def delete_conv')
  show "trace (removeOrder orderId m) =
        trace m @ removal_effects m orderId @
          map (\<lambda>callback. Call_onOrderEvent (cb_ref callback) orderId ev_cancelled order)
            (filter onOrderEvent (callbacks m))"
    by (simp add: r notifyCallbacks_def deleteFromMaps_def)
  have "getOrder ?m2 orderId = None \<and> trace ?m2 = trace m @ removal_effects m orderId"
    by (simp add: getOrder_def deleteFromMaps_def delete_conv')
  with r show "\<exists>m2. getOrder m2 orderId = None \<and> trace m2 = trace m @ removal_effects m orderId \<and>
            removeOrder orderId m = notifyCallbacks orderId ev_cancelled order m2"
    by blast
  fix k
  assume "k \<noteq> orderId"
  then show "getOrder (removeOrder orderId m) k = getOrder m k"
    by (simp add: getOrder_def o delete_conv')
qed

text \<open>
  On the sample store: removing an unknown identifier changes nothing; removing order
  \<open>a\<close> leaves three orders, has the chart remove \<open>overlay_1\<close> and then calls the callback;
  removing it again changes nothing.
\<close>

theorem removeOrder_idempotent_witness:
  "removeOrder ''zzz'' sample_bound = sample_bound \<and>
   distinct (map fst (orders sample_bound)) \<and>
   length (orders sample_bound) = 4 \<and>
   length (orders (removeOrder ''a'' sample_bound)) = 3 \<and>
   getOrder (removeOrder ''a'' sample_bound) ''a'' = None \<and>
   overlayIds (removeOrder ''a'' sample_bound) = [(''c'', ''overlay_2'')] \<and>
   trace (removeOrder ''a'' sample_bound) =
     [Chart_removeOverlay ''overlay_1'',
      Call_onOrderEvent 1 ''a'' ev_cancelled (sample_typed ''a'' limit (Num 100) pending)] \<and>
   removeOrder ''a'' (removeOrder ''a'' sample_bound) = removeOrder ''a'' sample_bound"
  using removeOrder_idempotent [of sample_bound "''zzz''"]
    removeOrder_idempotent [of sample_bound "''a''"]
    removeOrder_idempotent [of "removeOrder ''a'' sample_bound" "''a''"]
  by (simp add: sample_bound_def sample_store_def new_OrderManager_def getOrder_def
      removeOrder_def removeOverlayOf_def deleteFromMaps_def notifyCallbacks_def
      sample_callback_def AList.delete_eq removal_effects_def)

section \<open>Adding an order under an identifier the store has\<close>

lemma orders_addOrder:
  "orders (snd (addOrder env opts m)) =
     (if validateOrder (draft env opts) = []
      then (case complete (draft env opts) of
              None \<Rightarrow> orders m
            | Some order \<Rightarrow> AList.update (o_id order) order (orders m))
      else orders m)"
  by (simp add: addOrder_def Let_def split: option.splits)

lemma distinct_addOrder:
  "distinct (map fst (orders m)) \<Longrightarrow> distinct (map fst (orders (snd (addOrder env opts m))))"
  by (simp add: orders_addOrder distinct_update split: option.splits)

lemma distinct_addOrders:
  "distinct (map fst (orders m)) \<Longrightarrow> distinct (map fst (orders (addOrders reqs m)))"
  by (induction reqs m rule: addOrders.induct) (simp_all add: distinct_addOrder)

lemma update_keys_present:
  "map_of al k = Some v \<Longrightarrow> map fst (AList.update k w al) = map fst al"
  by (induction al) (auto split: if_splits)

text \<open>
  Claim C10. A call of \<open>addOrder\<close> with a caller-supplied identifier that the store
  already has (the request passing validation) does not throw and adds no entry: the keys
  of the store are the same, in the same order, the order stored under the identifier is
  the new one, and every other order is untouched. When there is a chart and it returns
  the handle of the primitive it creates, that handle is the identifier's binding (the
  chart is sent one \<^verbatim>\<open>createOverlay\<close> and nothing else). So after any sequence of calls of
  \<open>addOrder\<close> on a new manager the store holds each identifier once, the last writer's
  order under it.
\<close>

theorem addOrder_existing_id:
  assumes "validateOrder (draft env opts) = []" and "c_id opts = Some i" and "i \<noteq> []"
    and "getOrder m i = Some old"
  shows "\<exists>order m'. addOrder env opts m = (Inr i, m') \<and>
           complete (draft env opts) = Some order \<and>
           map fst (orders m') = map fst (orders m) \<and>
           getOrder m' i = Some order \<and>
           (\<forall>k. k \<noteq> i \<longrightarrow> getOrder m' k = getOrder m k) \<and>
           (distinct (map fst (orders m)) \<longrightarrow> distinct (map fst (orders m'))) \<and>
           (\<forall>h. chart m \<noteq> None \<and> createOverlayResult env = Some h \<and> h \<noteq> [] \<longrightarrow>
              map_of (overlayIds m') i = Some h \<and>
              trace m' = trace m @
                Chart_createOverlay ''trading_order'' [(o_price order, o_timestamp order)]
                  (overlayData m order) #
                map (\<lambda>callback. Call_onOrderEvent (cb_ref callback) i ev_created order)
                  (filter onOrderEvent (callbacks m))) \<and>
           distinct (map fst (orders (addOrders reqs (new_OrderManager c))))"
proof -
  from complete_draft [OF assms(1)] obtain order where
    c: "complete (draft env opts) = Some order" and
    i: "o_id order = spec_assigned_id env opts"
    by blast
  from i assms(2,3) have oi: "o_id order = i"
    by (simp add: spec_assigned_id_def)
  note v = assms(1)
  let ?m1 = "m\<lparr> orders := AList.update i order (orders m) \<rparr>"
  let ?m' = "notifyCallbacks i ev_created order (createOrderOverlay env order ?m1)"
  have a: "addOrder env opts m = (Inr i, ?m')"
    by (simp add: addOrder_def Let_def v c oi)
  have o: "orders ?m' = AList.update i order (orders m)"
    by simp
  from assms(4) have k: "map fst (orders ?m') = map fst (orders m)"
    by (simp add: o getOrder_def update_keys_present)
  have g: "getOrder ?m' i = Some order"
    by (simp add: getOrder_def update_conv')
  have f: "\<forall>k. k \<noteq> i \<longrightarrow> getOrder ?m' k = getOrder m k"
    by (simp add: getOrder_def update_conv')
  have d: "distinct (map fst (orders m)) \<longrightarrow> distinct (map fst (orders ?m'))"
    by (simp add: distinct_update)
  have b: "\<forall>h. chart m \<noteq> None \<and> createOverlayResult env = Some h \<and> h \<noteq> [] \<longrightarrow>
              map_of (overlayIds ?m') i = Some h \<and>
              trace ?m' = trace m @
                Chart_createOverlay ''trading_order'' [(o_price order, o_timestamp order)]
                  (overlayData m order) #
                map (\<lambda>callback. Call_onOrderEvent (cb_ref callback) i ev_created order)
                  (filter onOrderEvent (callbacks m))"
    by (auto simp: notifyCallbacks_def createOrderOverlay_def Let_def oi update_conv'
        overlayData_def)
  have n: "distinct (map fst (orders (addOrders reqs (new_OrderManager c))))"
    by (rule distinct_addOrders) (simp add: new_OrderManager_def)
  from a c k g f d b n show ?thesis
    by blast
qed


text \<open>
  After the first two requests the store holds \<open>x\<close> at 100 and \<open>y\<close>; the third request
  replaces the order under \<open>x\<close> by the one at 300 and binds \<open>x\<close> to the new primitive.
\<close>

theorem addOrder_existing_id_witness:
  "validateOrder (draft (sample_env\<lparr> createOverlayResult := Some ''overlay_2'' \<rparr>)
     (sample_options (Some ''x'') (Some (Num 300)) (Some ''BTCUSDT''))) = [] \<and>
   map_option o_price
     (getOrder (addOrders (take 2 sample_requests) (new_OrderManager (Some Chart))) ''x'')
     = Some (Num 100) \<and>
   map fst (orders (addOrders sample_requests (new_OrderManager (Some Chart)))) = [''x'', ''y''] \<and>
   map_option o_price
     (getOrder (addOrders sample_requests (new_OrderManager (Some Chart))) ''x'')
     = Some (Num 300) \<and>
   overlayIds (addOrders (take 2 sample_requests) (new_OrderManager (Some Chart)))
     = [(''x'', ''overlay_1''), (''y'', ''overlay_1'')] \<and>
   overlayIds (addOrders sample_requests (new_OrderManager (Some Chart)))
     = [(''x'', ''overlay_2''), (''y'', ''overlay_1'')]"
proof -
  let ?m = "addOrders (take 2 sample_requests) (new_OrderManager (Some Chart))"
  let ?env = "sample_env\<lparr> createOverlayResult := Some ''overlay_2'' \<rparr>"
  let ?opts = "sample_options (Some ''x'') (Some (Num 300)) (Some ''BTCUSDT'')"
  let ?old = "the (getOrder ?m ''x'')"
  have 1: "validateOrder (draft ?env ?opts) = []"
    by (simp add: validateOrder_def draft_def sample_options_def not_positive_def
        falsy_string_def)
  have 2: "c_id ?opts = Some ''x''"
    by (simp add: sample_options_def)
  have 3: "''x'' \<noteq> []" by simp
  have 4: "getOrder ?m ''x'' = Some ?old"
    by (simp add: sample_requests_def addOrder_def sample_env_def sample_options_def draft_def
      validateOrder_def not_positive_def falsy_string_def complete_def Let_def getOrder_def
      new_OrderManager_def createOrderOverlay_def notifyCallbacks_def)
  show ?thesis
    using 1 addOrder_existing_id [OF 1 2 3 4, of "[]" None]
    by (simp add: sample_requests_def addOrder_def sample_env_def sample_options_def draft_def
      validateOrder_def not_positive_def falsy_string_def complete_def Let_def getOrder_def
      new_OrderManager_def createOrderOverlay_def notifyCallbacks_def)
qed

section \<open>Export and import\<close>

subsection \<open>Numbers\<close>












subsection \<open>Texts\<close>






lemma all_ws_Nil: "all_ws []"
  by (simp add: all_ws_def)



















subsection \<open>Orders\<close>



lemma distinct_order_properties: "distinct (map fst (order_properties cj order))"
  by (simp add: order_properties_def)





text \<open>
  The JSON value of an order determines the order: two orders with the same value agree in
  every property, the metadata up to its JSON value.
\<close>

lemma map_of_defined_properties:
  "distinct (map fst ps) \<Longrightarrow>
     map_of (defined_properties ps) k = Option.bind (map_of ps k) id"
proof (induction ps rule: defined_properties.induct)
  case 1
  then show ?case by simp
next
  case (2 k' ps)
  then have "k' \<notin> fst ` set ps" by simp
  then have "map_of ps k' = None" by (simp add: map_of_eq_None_iff)
  with 2 show ?case by auto
next
  case (3 k' v ps)
  then show ?case by auto
qed

lemma number_json_inj: "number_json x = number_json y \<Longrightarrow> x = y"
  by (cases x; cases y) (simp_all add: number_json_def)

lemma type_string_inj: "type_string x = type_string y \<Longrightarrow> x = y"
  by (cases x; cases y) simp_all

lemma side_string_inj: "side_string x = side_string y \<Longrightarrow> x = y"
  by (cases x; cases y) simp_all

lemma status_string_inj: "status_string x = status_string y \<Longrightarrow> x = y"
  by (cases x; cases y) simp_all

lemma map_option_number_json_inj:
  "map_option number_json x = map_option number_json y \<Longrightarrow> x = y"
  by (cases x; cases y) (auto dest: number_json_inj)

lemma order_json_determines:
  assumes "order_json cj a = order_json cj b"
  shows "a = b\<lparr>o_customData := o_customData a\<rparr> \<and>
     map_option cj (o_customData a) = map_option cj (o_customData b)"
proof -
  from assms have e: "defined_properties (order_properties cj a)
      = defined_properties (order_properties cj b)"
    by (simp add: order_json_def)
  have p: "Option.bind (map_of (order_properties cj a) k) id
      = Option.bind (map_of (order_properties cj b) k) id" for k
    using arg_cong [OF e, of "\<lambda>ms. map_of ms k"]
    by (simp add: map_of_defined_properties distinct_order_properties)
  have "o_id a = o_id b"
    using p [of "''id''"] by (simp add: order_properties_def)
  moreover have "o_type a = o_type b"
    using p [of "''type''"] by (simp add: order_properties_def type_string_inj)
  moreover have "o_side a = o_side b"
    using p [of "''side''"] by (simp add: order_properties_def side_string_inj)
  moreover have "o_price a = o_price b"
    using p [of "''price''"] by (simp add: order_properties_def number_json_inj)
  moreover have "o_quantity a = o_quantity b"
    using p [of "''quantity''"] by (simp add: order_properties_def number_json_inj)
  moreover have "o_symbol a = o_symbol b"
    using p [of "''symbol''"] by (simp add: order_properties_def)
  moreover have "o_status a = o_status b"
    using p [of "''status''"] by (simp add: order_properties_def status_string_inj)
  moreover have "o_timestamp a = o_timestamp b"
    using p [of "''timestamp''"] by (simp add: order_properties_def number_json_inj)
  moreover have "o_text a = o_text b"
    using p [of "''text''"] by (cases "o_text a"; cases "o_text b") (simp_all add: order_properties_def)
  moreover have "o_entryPrice a = o_entryPrice b"
    using p [of "''entryPrice''"] by (simp add: order_properties_def map_option_number_json_inj)
  moreover have "o_stopLoss a = o_stopLoss b"
    using p [of "''stopLoss''"] by (simp add: order_properties_def map_option_number_json_inj)
  moreover have "o_takeProfit a = o_takeProfit b"
    using p [of "''takeProfit''"] by (simp add: order_properties_def map_option_number_json_inj)
  moreover have "o_pnl a = o_pnl b"
    using p [of "''pnl''"] by (simp add: order_properties_def map_option_number_json_inj)
  moreover have "o_unrealizedPnl a = o_unrealizedPnl b"
    using p [of "''unrealizedPnl''"] by (simp add: order_properties_def map_option_number_json_inj)
  moreover have "o_fees a = o_fees b"
    using p [of "''fees''"] by (simp add: order_properties_def map_option_number_json_inj)
  moreover have "o_fillPrice a = o_fillPrice b"
    using p [of "''fillPrice''"] by (simp add: order_properties_def map_option_number_json_inj)
  moreover have "o_fillQuantity a = o_fillQuantity b"
    using p [of "''fillQuantity''"] by (simp add: order_properties_def map_option_number_json_inj)
  moreover have "map_option cj (o_customData a) = map_option cj (o_customData b)"
    using p [of "''customData''"] by (simp add: order_properties_def)
  ultimately show ?thesis by simp
qed


text \<open>Unfolding on numerals, for the worked example.\<close>

lemma frac_digits_numeral:
  "frac_digits (numeral k) x =
     (if x = 0 then []
      else digit_char (nat \<lfloor>x * 10\<rfloor>) # frac_digits (pred_numeral k) (x * 10 - of_int \<lfloor>x * 10\<rfloor>))"
  by (simp add: numeral_eq_Suc)

lemma replicate_numeral: "replicate (numeral k) x = x # replicate (pred_numeral k) x"
  by (simp add: numeral_eq_Suc)

text \<open>
  The built-ins at work: a text with an exponent, an escape and a key that occurs twice is
  read; a value with a negative number, an empty array and a string with a line feed, a
  control character and a double quote is written.
\<close>

lemma JSON_parse_sample:
  "JSON_parse (''{\"a\": [1, -2.5e1, true, null], \"b\": \"x'' @ [CHR 0x5C] @ ''n\", \"a\": {}}'') =
     Some (JObject [(''a'', JObject []), (''b'', JString ''x\<newline>'')])"
  by (simp add: JSON_parse_def skip_ws_def is_ws_def is_digit_def is_number_char_def
      read_number_def read_unsigned_def read_int_part_def read_frac_part_def read_exponent_def
      digits_value_def digit_value_def frac_value_def scale10_def unescape_def cons_char_def
      Let_def)

lemma JSON_stringify_sample:
  "JSON_stringify (JObject [(''a'', JArray [JNumber (-0.25), JBool False, JArray []]),
       (''b'', JString [CHR ''x'', CHR 0x0A, CHR 0x01, CHR 0x22])]) =
    ''{\<newline>'' @
    ''  \"a\": [\<newline>'' @
    ''    -0.25,\<newline>'' @
    ''    false,\<newline>'' @
    ''    []\<newline>'' @
    ''  ],\<newline>'' @
    ''  \"b\": \"x'' @ [CHR 0x5C] @ ''n'' @ [CHR 0x5C] @ ''u0001'' @ [CHR 0x5C] @ ''\"\"\<newline>'' @
    ''}''"
  by (simp add: JSON_stringify_def newline_def indent_def quote_def escape_def number_text_def
      unsigned_text_def digits.simps digit_char_def hex_digit_def frac_digits_numeral
      replicate_numeral frac_def)




section \<open>The store holds each identifier once\<close>

lemma orders_updateOrderOverlay [simp]: "orders (updateOrderOverlay ord m) = orders m"
  by (simp add: updateOrderOverlay_def split: option.splits)

lemma orders_fold_update:
  "orders (fold (\<lambda>entry. updateOrderOverlay (snd entry)) xs m) = orders m"
  by (induction xs arbitrary: m) auto

lemma orders_refreshAllOrders [simp]: "orders (refreshAllOrders m) = orders m"
  by (simp add: refreshAllOrders_def orders_fold_update)

lemma orders_removeOrder:
  "orders (removeOrder i m) = (case map_of (orders m) i of None \<Rightarrow> orders m | Some _ \<Rightarrow> AList.delete i (orders m))"
  by (simp add: removeOrder_def deleteFromMaps_def split: option.splits)

lemma distinct_removeOrder:
  "distinct (map fst (orders m)) \<Longrightarrow> distinct (map fst (orders (removeOrder i m)))"
  by (simp add: orders_removeOrder distinct_delete split: option.splits)

lemma distinct_fold_removeOrder:
  "distinct (map fst (orders m)) \<Longrightarrow> distinct (map fst (orders (fold removeOrder ids m)))"
  by (induction ids arbitrary: m) (simp_all add: distinct_removeOrder)

lemma orders_updateOrder:
  "orders (snd (updateOrder i u m)) =
     (case map_of (orders m) i of
        None \<Rightarrow> orders m
      | Some order \<Rightarrow> AList.update i (spread_order order u) (orders m))"
  by (simp add: updateOrder_def Let_def split: option.splits)

lemma distinct_updateOrder:
  "distinct (map fst (orders m)) \<Longrightarrow> distinct (map fst (orders (snd (updateOrder i u m))))"
  by (simp add: orders_updateOrder distinct_update split: option.splits)

lemma distinct_handleOrderCancel:
  "distinct (map fst (orders m)) \<Longrightarrow> distinct (map fst (orders (handleOrderCancel i m)))"
  by (simp add: handleOrderCancel_def Let_def distinct_updateOrder split: option.splits)

lemma distinct_handlePriceChange:
  "distinct (map fst (orders m)) \<Longrightarrow> distinct (map fst (orders (handlePriceChange i p q m)))"
  by (simp add: handlePriceChange_def Let_def distinct_update split: option.splits)

text \<open>
  The identifiers of the store are unique in every manager the class can be in: this is
  the hypothesis on the store in the theorems on \<open>removeOrder\<close>.
\<close>

lemma reachable_distinct: "reachable m \<Longrightarrow> distinct (map fst (orders m))"
proof (induction rule: reachable.induct)
  case (reach_new c)
  show ?case by (simp add: new_OrderManager_def)
next
  case (reach_addOrder m env orderOptions)
  then show ?case by (simp add: distinct_addOrder)
next
  case (reach_updateOrder m orderId updates)
  then show ?case by (simp add: distinct_updateOrder)
next
  case (reach_removeOrder m orderId)
  then show ?case by (simp add: distinct_removeOrder)
next
  case (reach_clearAllOrders m)
  then show ?case by (simp add: clearAllOrders_def distinct_fold_removeOrder)
next
  case (reach_setTheme m th)
  then show ?case by (simp add: setTheme_def)
next
  case (reach_setChart m c)
  then show ?case by (simp add: setChart_def)
next
  case (reach_updateCurrentPrice m price)
  then show ?case by (simp add: updateCurrentPrice_def)
next
  case (reach_addCallback m callback)
  then show ?case by (simp add: addCallback_def)
next
  case (reach_removeCallback m callback)
  then show ?case by (simp add: removeCallback_def)
next
  case (reach_handleOrderCancel m orderId)
  then show ?case by (simp add: distinct_handleOrderCancel)
next
  case (reach_handlePriceChange m orderId newPrice oldPrice)
  then show ?case by (simp add: distinct_handlePriceChange)
next
  case (reach_handleOrderDragEnd m orderId finalPrice)
  then show ?case by (simp add: handleOrderDragEnd_def)
next
  case (reach_handleOrderClick m orderId)
  then show ?case by (simp add: handleOrderClick_def)
qed

end
